theory Spec2Isabelle
  imports Complex_Main "HOL-Library.Char_ord" "HOL-Library.List_Lexorder"
begin

section \<open>Python values and the operations the bot applies to them\<close>

text \<open>
  The bot of \<^verbatim>\<open>snipe_bot.py\<close> is dynamically typed: a field such as \<^verbatim>\<open>max_price\<close> starts
  as \<^verbatim>\<open>None\<close> and is later a number, and whatever the exchange library returns is taken
  apart with \<^verbatim>\<open>[...]\<close> and \<^verbatim>\<open>.get\<close>. The values are therefore one datatype. Python's
  \<^verbatim>\<open>int\<close> and \<^verbatim>\<open>float\<close> are both \<open>PNum\<close> over the rationals: comparisons and
  truthiness are exact on them; the binary rounding of float division and multiplication
  is not modelled (arithmetic is exact), nor are infinities and NaN.
\<close>

datatype pyval = PNone | PNum rat | PStr string | PDict "(string \<times> pyval) list"

text \<open>
  Exceptions. Everything that derives from Python's \<^verbatim>\<open>Exception\<close> is \<open>Exception k\<close>;
  \<^verbatim>\<open>KeyboardInterrupt\<close> derives from \<^verbatim>\<open>BaseException\<close> only, so a handler
  \<^verbatim>\<open>except Exception\<close> does not catch it. \<open>LibraryError\<close> stands for any error class of
  the exchange client or of the logging set-up (network failure, bad symbol, rejected
  order, ...), all of which derive from \<^verbatim>\<open>Exception\<close>.
\<close>

datatype exc_kind =
  ZeroDivisionError | TypeError | AttributeError | KeyError | IndexError | ValueError
  | LibraryError string

datatype pyexc = Exception exc_kind | KeyboardInterrupt

fun truthy :: "pyval \<Rightarrow> bool" where
  "truthy PNone = False"
| "truthy (PNum x) = (x \<noteq> 0)"
| "truthy (PStr s) = (s \<noteq> [])"
| "truthy (PDict d) = (d \<noteq> [])"

text \<open>\<^verbatim>\<open>a / b\<close>: true division, defined on numbers only.\<close>

fun py_truediv :: "pyval \<Rightarrow> pyval \<Rightarrow> pyexc + pyval" where
  "py_truediv (PNum a) (PNum b) =
     (if b = 0 then Inl (Exception ZeroDivisionError) else Inr (PNum (a / b)))"
| "py_truediv _ _ = Inl (Exception TypeError)"

text \<open>
  \<^verbatim>\<open>a * c\<close> for a float literal \<open>c\<close> (the source multiplies by \<^verbatim>\<open>1.01\<close>): a string or a
  dict times a float is a \<^verbatim>\<open>TypeError\<close>.
\<close>

fun py_mul_float :: "pyval \<Rightarrow> rat \<Rightarrow> pyexc + pyval" where
  "py_mul_float (PNum a) c = Inr (PNum (a * c))"
| "py_mul_float _ c = Inl (Exception TypeError)"

text \<open>
  Ordering comparisons: numbers with numbers, strings with strings (lexicographic on the
  characters' codes); every other pair is a \<^verbatim>\<open>TypeError\<close>.
\<close>

fun py_lt :: "pyval \<Rightarrow> pyval \<Rightarrow> pyexc + bool" where
  "py_lt (PNum a) (PNum b) = Inr (a < b)"
| "py_lt (PStr a) (PStr b) = Inr (a < b)"
| "py_lt _ _ = Inl (Exception TypeError)"

fun py_le :: "pyval \<Rightarrow> pyval \<Rightarrow> pyexc + bool" where
  "py_le (PNum a) (PNum b) = Inr (a \<le> b)"
| "py_le (PStr a) (PStr b) = Inr (a \<le> b)"
| "py_le _ _ = Inl (Exception TypeError)"

definition py_gt :: "pyval \<Rightarrow> pyval \<Rightarrow> pyexc + bool" where
  "py_gt a b = py_lt b a"

definition py_ge :: "pyval \<Rightarrow> pyval \<Rightarrow> pyexc + bool" where
  "py_ge a b = py_le b a"

text \<open>
  \<^verbatim>\<open>max(a, b)\<close> keeps \<open>a\<close> unless \<^verbatim>\<open>b > a\<close>; the comparison may raise.
\<close>

definition py_max :: "pyval \<Rightarrow> pyval \<Rightarrow> pyexc + pyval" where
  "py_max a b = (case py_gt b a of Inl e \<Rightarrow> Inl e | Inr c \<Rightarrow> Inr (if c then b else a))"

text \<open>\<^verbatim>\<open>d.get(k, dflt)\<close>: only a dict has the method.\<close>

fun py_get :: "pyval \<Rightarrow> string \<Rightarrow> pyval \<Rightarrow> pyexc + pyval" where
  "py_get (PDict d) k dflt = Inr (case map_of d k of Some v \<Rightarrow> v | None \<Rightarrow> dflt)"
| "py_get _ k dflt = Inl (Exception AttributeError)"

text \<open>\<^verbatim>\<open>d[k]\<close> for a string key \<open>k\<close>.\<close>

fun py_getitem :: "pyval \<Rightarrow> string \<Rightarrow> pyexc + pyval" where
  "py_getitem (PDict d) k =
     (case map_of d k of Some v \<Rightarrow> Inr v | None \<Rightarrow> Inl (Exception KeyError))"
| "py_getitem _ k = Inl (Exception TypeError)"

text \<open>\<^verbatim>\<open>s.split(c)\<close> for a one-character separator.\<close>

fun split_on :: "char \<Rightarrow> string \<Rightarrow> string list" where
  "split_on c [] = [[]]"
| "split_on c (x # xs) =
     (if x = c then [] # split_on c xs
      else (case split_on c xs of p # ps \<Rightarrow> (x # p) # ps | [] \<Rightarrow> [[x]]))"

text \<open>\<^verbatim>\<open>v.split('/')[1]\<close>.\<close>

fun py_split_slash_1 :: "pyval \<Rightarrow> pyexc + string" where
  "py_split_slash_1 (PStr s) =
     (let parts = split_on (CHR ''/'') s
      in if 1 < length parts then Inr (parts ! 1) else Inl (Exception IndexError))"
| "py_split_slash_1 _ = Inl (Exception AttributeError)"

text \<open>
  \<^verbatim>\<open>"{:.4f}".format(x)\<close> prints the decimal with four fractional digits nearest to \<open>x\<close>,
  ties to the even digit. \<open>format_4f\<close> is the value that string denotes, so that
  \<^verbatim>\<open>float(formatted_amount)\<close> is the identity on it.
\<close>

definition round_half_even :: "rat \<Rightarrow> int" where
  "round_half_even x =
     (let f = \<lfloor>x\<rfloor>; d = x - of_int f
      in if d < 1 / 2 then f else if 1 / 2 < d then f + 1 else if even f then f else f + 1)"

definition format_4f :: "rat \<Rightarrow> rat" where
  "format_4f x = of_int (round_half_even (x * 10000)) / 10000"

fun py_format_4f :: "pyval \<Rightarrow> pyexc + pyval" where
  "py_format_4f (PNum x) = Inr (PNum (format_4f x))"
| "py_format_4f (PStr s) = Inl (Exception ValueError)"
| "py_format_4f _ = Inl (Exception TypeError)"

text \<open>
  \<^verbatim>\<open>market.get('limits', {}).get(key, {}).get('min', dflt)\<close>, the chain the source uses for
  the minimum amount and the minimum cost of a market.
\<close>

definition limits_min :: "pyval \<Rightarrow> string \<Rightarrow> pyval \<Rightarrow> pyexc + pyval" where
  "limits_min market key dflt =
     (case py_get market ''limits'' (PDict []) of
        Inl e \<Rightarrow> Inl e
      | Inr limits \<Rightarrow>
          (case py_get limits key (PDict []) of
             Inl e \<Rightarrow> Inl e
           | Inr entry \<Rightarrow> py_get entry ''min'' dflt))"


section \<open>The exchange client, the trace of effects, and programs\<close>

text \<open>
  The exchange client (ccxt) is outside the repository. Each of its methods the bot calls
  is a \<open>call\<close>; the client answers with a value or raises. \<open>Sleep\<close> is
  \<^verbatim>\<open>time.sleep(1)\<close>. The amount argument of an order is the number whose \<^verbatim>\<open>str\<close> the
  source passes.
\<close>

datatype call =
  SetupLogging
  | NewClient
  | SetSandboxMode
  | LoadMarkets
  | Market pyval
  | FetchTicker pyval
  | FetchBalance
  | CreateMarketBuyOrder pyval pyval pyval
  | CreateLimitBuyOrder pyval pyval pyval pyval
  | Sleep

datatype level = INFO | ERROR

text \<open>
  What the program does to the outside, in order: calls, log records (the level only; the
  message text is not modelled) and what \<^verbatim>\<open>main.py\<close> prints.
\<close>

datatype event = Call call | Log level | Print pyexc

type_synonym trace = "event list"

text \<open>
  The environment: how the client answers a call given everything that happened before
  (so any deterministic exchange, and any sequence of answers, is an \<open>exchange\<close>; an
  answer \<open>Inl KeyboardInterrupt\<close> is a manual interruption arriving during that call),
  and the current value of its \<^verbatim>\<open>markets\<close> attribute, \<^verbatim>\<open>None\<close> or a dict keyed by symbol.
  The same record answers the two calls that do not go to the exchange, the logging set-up
  and the sleep.
\<close>

record exchange =
  respond :: "trace \<Rightarrow> call \<Rightarrow> pyexc + pyval"
  markets :: "trace \<Rightarrow> (string \<times> pyval) list option"

type_synonym 'a result = "(pyexc + 'a) \<times> trace"
type_synonym 'a prog = "trace \<Rightarrow> 'a result"

definition return :: "'a \<Rightarrow> 'a prog" where
  "return v tr = (Inr v, tr)"

definition lift :: "pyexc + 'a \<Rightarrow> 'a prog" where
  "lift r tr = (r, tr)"

definition bind :: "'a prog \<Rightarrow> ('a \<Rightarrow> 'b prog) \<Rightarrow> 'b prog" where
  "bind m f tr = (case m tr of (Inl e, tr') \<Rightarrow> (Inl e, tr') | (Inr v, tr') \<Rightarrow> f v tr')"

definition seq :: "unit prog \<Rightarrow> 'b prog \<Rightarrow> 'b prog" where
  "seq m n = bind m (\<lambda>_. n)"

text \<open>\<^verbatim>\<open>try: m  except Exception: h\<close>. A \<^verbatim>\<open>KeyboardInterrupt\<close> passes through.\<close>

definition try_except :: "'a prog \<Rightarrow> (exc_kind \<Rightarrow> 'a prog) \<Rightarrow> 'a prog" where
  "try_except m h tr =
     (case m tr of
        (Inl (Exception k), tr') \<Rightarrow> h k tr'
      | (Inl KeyboardInterrupt, tr') \<Rightarrow> (Inl KeyboardInterrupt, tr')
      | (Inr v, tr') \<Rightarrow> (Inr v, tr'))"

definition logger :: "level \<Rightarrow> unit prog" where
  "logger l tr = (Inr (), tr @ [Log l])"

definition call_exchange :: "exchange \<Rightarrow> call \<Rightarrow> pyval prog" where
  "call_exchange ex c tr = (respond ex tr c, tr @ [Call c])"

text \<open>
  \<^verbatim>\<open>time.sleep(1)\<close> returns, unless a manual interruption arrives while it sleeps.
\<close>

definition sleep :: "exchange \<Rightarrow> unit prog" where
  "sleep ex tr =
     (case respond ex tr Sleep of
        Inl KeyboardInterrupt \<Rightarrow> (Inl KeyboardInterrupt, tr @ [Call Sleep])
      | _ \<Rightarrow> (Inr (), tr @ [Call Sleep]))"


section \<open>The bot\<close>

text \<open>The trading parameters of \<^verbatim>\<open>SnipeBot.__init__\<close> (lines 24 to 28).\<close>

record bot =
  target_symbol :: pyval
  quote_amount :: pyval
  max_price :: pyval
  order_type :: pyval
  limit_price :: pyval

text \<open>
  Each of the next four methods is one \<^verbatim>\<open>try\<close> block with a handler
  \<^verbatim>\<open>except Exception\<close> that logs an error and returns a fixed value. The block is the
  definition named \<open>_try\<close>, the method wraps it in the handler.
\<close>

text \<open>\<^verbatim>\<open>SnipeBot.calculate_buy_amount\<close> (lines 74 to 100).\<close>

definition calculate_buy_amount_try :: "exchange \<Rightarrow> bot \<Rightarrow> pyval \<Rightarrow> pyval prog" where
  "calculate_buy_amount_try ex b price =
     bind (lift (py_truediv (quote_amount b) price)) (\<lambda>amount.
     bind (call_exchange ex (Market (target_symbol b))) (\<lambda>market.
     bind (lift (limits_min market ''amount'' (PNum (1 / 100)))) (\<lambda>min_amount.
     bind (lift (py_max amount min_amount)) (\<lambda>amount.
     bind (lift (py_format_4f amount)) (\<lambda>formatted_amount.
     seq (logger INFO)
     (return formatted_amount))))))"

definition calculate_buy_amount :: "exchange \<Rightarrow> bot \<Rightarrow> pyval \<Rightarrow> pyval prog" where
  "calculate_buy_amount ex b price =
     try_except (calculate_buy_amount_try ex b price)
       (\<lambda>k. seq (logger ERROR) (return PNone))"

text \<open>\<^verbatim>\<open>SnipeBot.get_current_price\<close> (lines 102 to 109).\<close>

definition get_current_price_try :: "exchange \<Rightarrow> bot \<Rightarrow> pyval prog" where
  "get_current_price_try ex b =
     bind (call_exchange ex (FetchTicker (target_symbol b))) (\<lambda>ticker.
     lift (py_getitem ticker ''last''))"

definition get_current_price :: "exchange \<Rightarrow> bot \<Rightarrow> pyval prog" where
  "get_current_price ex b =
     try_except (get_current_price_try ex b)
       (\<lambda>k. seq (logger ERROR) (return PNone))"

text \<open>\<^verbatim>\<open>SnipeBot.check_balance\<close> (lines 111 to 122).\<close>

definition check_balance_try :: "exchange \<Rightarrow> bot \<Rightarrow> bool prog" where
  "check_balance_try ex b =
     bind (call_exchange ex FetchBalance) (\<lambda>balance.
     bind (lift (py_split_slash_1 (target_symbol b))) (\<lambda>quote_currency.
     bind (lift (py_getitem balance quote_currency)) (\<lambda>entry.
     bind (lift (py_getitem entry ''free'')) (\<lambda>available.
     seq (logger INFO)
     (lift (py_ge available (quote_amount b)))))))"

definition check_balance :: "exchange \<Rightarrow> bot \<Rightarrow> bool prog" where
  "check_balance ex b =
     try_except (check_balance_try ex b)
       (\<lambda>k. seq (logger ERROR) (return False))"

text \<open>The \<^verbatim>\<open>params\<close> dict both order calls pass.\<close>

definition order_params :: pyval where
  "order_params = PDict [(''tdMode'', PStr ''cash''), (''tgtCcy'', PStr ''quote_ccy'')]"

text \<open>
  The method \<^verbatim>\<open>SnipeBot.place_order\<close> (lines 124 to 202). After a successful balance
  check, the market branch fetches the price again and sizes the order from it; every other
  order type takes the limit branch.
\<close>

definition SnipeBot_place_order_try :: "exchange \<Rightarrow> bot \<Rightarrow> pyval prog" where
  "SnipeBot_place_order_try ex b =
       (bind (check_balance ex b) (\<lambda>enough.
        if \<not> enough then seq (logger ERROR) (return PNone)
        else if order_type b = PStr ''market'' then
          bind (get_current_price ex b) (\<lambda>current_price.
          if current_price = PNone then seq (logger ERROR) (return PNone)
          else
            bind (calculate_buy_amount ex b current_price) (\<lambda>amount.
            if amount = PNone then seq (logger ERROR) (return PNone)
            else
              bind (call_exchange ex (Market (target_symbol b))) (\<lambda>market.
              bind (lift (limits_min market ''amount'' (PNum (1 / 10000)))) (\<lambda>min_amount.
              seq (logger INFO)
              (bind (lift (py_lt amount min_amount)) (\<lambda>too_small.
               if too_small then seq (logger ERROR) (return PNone)
               else
                 seq (logger INFO)
                 (bind (call_exchange ex
                     (CreateMarketBuyOrder (target_symbol b) amount order_params)) (\<lambda>order.
                  seq (logger INFO) (seq (logger INFO) (return order))))))))))
        else
          bind (calculate_buy_amount ex b (limit_price b)) (\<lambda>amount.
          if amount = PNone then seq (logger ERROR) (return PNone)
          else
            bind (call_exchange ex (Market (target_symbol b))) (\<lambda>market.
            bind (lift (limits_min market ''amount'' (PNum (1 / 10000)))) (\<lambda>min_amount.
            seq (logger INFO)
            (bind (lift (py_lt amount min_amount)) (\<lambda>too_small.
             if too_small then seq (logger ERROR) (return PNone)
             else
               seq (logger INFO)
               (bind (call_exchange ex
                   (CreateLimitBuyOrder (target_symbol b) amount (limit_price b) order_params))
                  (\<lambda>order.
                seq (logger INFO) (seq (logger INFO) (return order)))))))))))"

definition SnipeBot_place_order :: "exchange \<Rightarrow> bot \<Rightarrow> pyval prog" where
  "SnipeBot_place_order ex b =
     try_except (SnipeBot_place_order_try ex b)
       (\<lambda>k. seq (logger ERROR) (return PNone))"

text \<open>
  The second \<^verbatim>\<open>place_order\<close>, defined at module level after \<^verbatim>\<open>run\<close> (lines 303 to 381),
  applied to a bot as its \<^verbatim>\<open>self\<close>.
\<close>

definition module_place_order_try :: "exchange \<Rightarrow> bot \<Rightarrow> pyval prog" where
  "module_place_order_try ex self =
       (bind (check_balance ex self) (\<lambda>enough.
        if \<not> enough then seq (logger ERROR) (return PNone)
        else if order_type self = PStr ''market'' then
          bind (get_current_price ex self) (\<lambda>current_price.
          if current_price = PNone then seq (logger ERROR) (return PNone)
          else
            bind (calculate_buy_amount ex self current_price) (\<lambda>amount.
            if amount = PNone then seq (logger ERROR) (return PNone)
            else
              bind (call_exchange ex (Market (target_symbol self))) (\<lambda>market.
              bind (lift (limits_min market ''amount'' (PNum (1 / 10000)))) (\<lambda>min_amount.
              seq (logger INFO)
              (bind (lift (py_lt amount min_amount)) (\<lambda>too_small.
               if too_small then seq (logger ERROR) (return PNone)
               else
                 seq (logger INFO)
                 (bind (call_exchange ex
                     (CreateMarketBuyOrder (target_symbol self) amount order_params)) (\<lambda>order.
                  seq (logger INFO) (seq (logger INFO) (return order))))))))))
        else
          bind (calculate_buy_amount ex self (limit_price self)) (\<lambda>amount.
          if amount = PNone then seq (logger ERROR) (return PNone)
          else
            bind (call_exchange ex (Market (target_symbol self))) (\<lambda>market.
            bind (lift (limits_min market ''amount'' (PNum (1 / 10000)))) (\<lambda>min_amount.
            seq (logger INFO)
            (bind (lift (py_lt amount min_amount)) (\<lambda>too_small.
             if too_small then seq (logger ERROR) (return PNone)
             else
               seq (logger INFO)
               (bind (call_exchange ex
                   (CreateLimitBuyOrder (target_symbol self) amount (limit_price self)
                      order_params))
                  (\<lambda>order.
                seq (logger INFO) (seq (logger INFO) (return order)))))))))))"

definition module_place_order :: "exchange \<Rightarrow> bot \<Rightarrow> pyval prog" where
  "module_place_order ex self =
     try_except (module_place_order_try ex self)
       (\<lambda>k. seq (logger ERROR) (return PNone))"


section \<open>The polling loop of run\<close>

text \<open>
  The \<^verbatim>\<open>while True\<close> loop of \<^verbatim>\<open>run\<close> (lines 256 to 297). One pass through the
  \<^verbatim>\<open>try\<close> block either goes on to the next iteration with a value of
  \<^verbatim>\<open>retry_count\<close>, or leaves the loop through one of its three \<^verbatim>\<open>break\<close> statements.
\<close>

datatype loop_exit = OrderPlaced | PriceFetchFailed | Interrupted

datatype flow = Continue nat | Break loop_exit

definition max_retries :: nat where
  "max_retries = 3"

text \<open>Lines 288 and 289: \<^verbatim>\<open>retry_count = 0\<close>, then \<^verbatim>\<open>time.sleep(1)\<close>.\<close>

definition reset_and_wait :: "exchange \<Rightarrow> flow prog" where
  "reset_and_wait ex = seq (sleep ex) (return (Continue 0))"

text \<open>The \<^verbatim>\<open>try\<close> block of the loop (lines 261 to 289).\<close>

definition loop_try :: "exchange \<Rightarrow> bot \<Rightarrow> nat \<Rightarrow> flow prog" where
  "loop_try ex b retry_count =
     bind (get_current_price ex b) (\<lambda>current_price.
     if current_price = PNone then
       (if max_retries \<le> retry_count + 1
        then seq (logger ERROR) (return (Break PriceFetchFailed))
        else seq (logger INFO) (seq (sleep ex) (return (Continue (retry_count + 1)))))
     else
       seq (logger INFO)
       (bind (lift (py_le current_price (max_price b))) (\<lambda>within_limit.
        if within_limit then
          bind (SnipeBot_place_order ex b) (\<lambda>order.
          if truthy order
          then seq (logger INFO) (seq (logger INFO) (return (Break OrderPlaced)))
          else seq (logger ERROR) (reset_and_wait ex))
        else seq (logger INFO) (reset_and_wait ex))))"

text \<open>
  One iteration: the block with its two handlers (lines 291 to 297). No statement of the
  block that can raise an \<^verbatim>\<open>Exception\<close> comes after an assignment to
  \<^verbatim>\<open>retry_count\<close>, so the handler for \<^verbatim>\<open>Exception\<close> goes on with the count the
  iteration started with. A \<^verbatim>\<open>KeyboardInterrupt\<close> during the handler's own sleep leaves
  the loop as an exception.
\<close>

definition loop_iteration :: "exchange \<Rightarrow> bot \<Rightarrow> nat \<Rightarrow> flow prog" where
  "loop_iteration ex b retry_count tr =
     (case loop_try ex b retry_count tr of
        (Inl KeyboardInterrupt, tr') \<Rightarrow>
          seq (logger INFO) (seq (logger INFO) (return (Break Interrupted))) tr'
      | (Inl (Exception k), tr') \<Rightarrow>
          seq (logger ERROR) (seq (sleep ex) (return (Continue retry_count))) tr'
      | (Inr f, tr') \<Rightarrow> (Inr f, tr'))"

text \<open>The loop. It need not end: \<open>None\<close> is a loop that runs forever.\<close>

partial_function (option) run_loop ::
  "exchange \<Rightarrow> bot \<Rightarrow> nat \<Rightarrow> trace \<Rightarrow> loop_exit result option" where
  "run_loop ex b retry_count tr =
     (case loop_iteration ex b retry_count tr of
        (Inr (Continue n), tr') \<Rightarrow> run_loop ex b n tr'
      | (Inr (Break x), tr') \<Rightarrow> Some (Inr x, tr')
      | (Inl e, tr') \<Rightarrow> Some (Inl e, tr'))"


section \<open>Parameter validation and run\<close>

text \<open>A block of statements either executes \<^verbatim>\<open>return\<close> or falls through to the next.\<close>

datatype 'a ctl = EarlyReturn | Next 'a

definition logs :: "level \<Rightarrow> nat \<Rightarrow> unit prog" where
  "logs l n tr = (Inr (), tr @ replicate n (Log l))"

text \<open>
  Step 2 of \<^verbatim>\<open>run\<close> (lines 212 to 226). \<^verbatim>\<open>all([a, b])\<close> is the truthiness of both.
  The block may assign \<^verbatim>\<open>self.max_price\<close>, so it yields the bot.
\<close>

definition run_check_params :: "bot \<Rightarrow> bot ctl prog" where
  "run_check_params b =
     (if \<not> (truthy (target_symbol b) \<and> truthy (quote_amount b))
      then seq (logger ERROR) (return EarlyReturn)
      else if order_type b = PStr ''limit'' \<and> \<not> truthy (limit_price b)
      then seq (logger ERROR) (return EarlyReturn)
      else if \<not> truthy (max_price b) then
        (if order_type b = PStr ''limit'' then
           bind (lift (py_mul_float (limit_price b) (101 / 100))) (\<lambda>v.
           seq (logger INFO) (return (Next (b\<lparr>max_price := v\<rparr>))))
         else seq (logger ERROR) (return EarlyReturn))
      else return (Next b))"

text \<open>
  \<^verbatim>\<open>x in d\<close> for the dict of markets: a dict is not hashable, and only a string can
  equal one of the keys.
\<close>

fun py_in_markets :: "pyval \<Rightarrow> (string \<times> pyval) list \<Rightarrow> pyexc + bool" where
  "py_in_markets (PStr s) d = Inr (map_of d s \<noteq> None)"
| "py_in_markets (PDict x) d = Inl (Exception TypeError)"
| "py_in_markets _ d = Inr False"

text \<open>
  Steps 3 to 6 (lines 229 to 253): the symbol must be a loaded market and the budget must
  reach the market's minimum cost, then the banner is logged (eight records, nine for a
  limit order). \<^verbatim>\<open>min_cost and ...\<close> compares only when \<^verbatim>\<open>min_cost\<close> is truthy.
\<close>

definition run_check_market :: "exchange \<Rightarrow> bot \<Rightarrow> unit ctl prog" where
  "run_check_market ex b =
     (\<lambda>tr.
       (case markets ex tr of
          None \<Rightarrow> (Inl (Exception TypeError), tr)
        | Some ms \<Rightarrow>
           bind (lift (py_in_markets (target_symbol b) ms)) (\<lambda>known.
           if \<not> known then seq (logger ERROR) (return EarlyReturn)
           else
             bind (call_exchange ex (Market (target_symbol b))) (\<lambda>market.
             bind (lift (limits_min market ''cost'' (PNum 0))) (\<lambda>min_cost.
             bind (lift (limits_min market ''amount'' (PNum (1 / 10000)))) (\<lambda>min_amount.
             bind (if truthy min_cost then lift (py_lt (quote_amount b) min_cost)
                   else return False) (\<lambda>below.
             if below then seq (logger ERROR) (return EarlyReturn)
             else
               seq (logs INFO (if order_type b = PStr ''limit'' then 9 else 8))
               (return (Next ()))))))) tr))"

text \<open>The handler of the outer \<^verbatim>\<open>try\<close> of \<^verbatim>\<open>run\<close> (lines 299 to 301).\<close>

definition run_except :: "pyexc \<Rightarrow> unit prog" where
  "run_except e tr =
     (case e of
        Exception k \<Rightarrow> (Inr (), tr @ [Log ERROR, Log INFO])
      | KeyboardInterrupt \<Rightarrow> (Inl KeyboardInterrupt, tr))"

text \<open>Steps 3 to 7 of \<^verbatim>\<open>run\<close>, for the bot that step 2 left.\<close>

definition run_from_step_3 :: "exchange \<Rightarrow> bot \<Rightarrow> trace \<Rightarrow> unit result option" where
  "run_from_step_3 ex b tr =
     (case run_check_market ex b tr of
        (Inl e, tr') \<Rightarrow> Some (run_except e tr')
      | (Inr EarlyReturn, tr') \<Rightarrow> Some (Inr (), tr')
      | (Inr (Next u), tr') \<Rightarrow>
          (case run_loop ex b 0 tr' of
             None \<Rightarrow> None
           | Some (Inl e, tr'') \<Rightarrow> Some (run_except e tr'')
           | Some (Inr x, tr'') \<Rightarrow> Some (Inr (), tr'')))"

text \<open>Steps 1 and 2 (lines 207 to 226).\<close>

definition run_steps_1_2 :: "exchange \<Rightarrow> bot \<Rightarrow> bot ctl prog" where
  "run_steps_1_2 ex b =
     seq (logger INFO)
     (bind (call_exchange ex LoadMarkets) (\<lambda>loaded.
      seq (logger INFO)
      (run_check_params b)))"

text \<open>
  The module-level function \<^verbatim>\<open>run\<close> (lines 203 to 301), applied to a bot as its
  \<^verbatim>\<open>self\<close>. \<open>None\<close>: it never returns.
\<close>

definition run :: "exchange \<Rightarrow> bot \<Rightarrow> trace \<Rightarrow> unit result option" where
  "run ex self tr =
     (case run_steps_1_2 ex self tr of
        (Inl e, tr') \<Rightarrow> Some (run_except e tr')
      | (Inr EarlyReturn, tr') \<Rightarrow> Some (Inr (), tr')
      | (Inr (Next self'), tr') \<Rightarrow> run_from_step_3 ex self' tr')"


section \<open>The class, attribute lookup and the entry point\<close>

text \<open>
  What \<^verbatim>\<open>snipe_bot.py\<close> defines where. The body of \<^verbatim>\<open>class SnipeBot\<close> (lines 8 to 202)
  defines seven functions; \<^verbatim>\<open>run\<close> (line 203) and the second \<^verbatim>\<open>place_order\<close>
  (line 303) start in column 0, after the class body has ended, so they are functions of
  the module. \<^verbatim>\<open>__init__\<close> gives every instance seven attributes.
\<close>

datatype member =
  M_init | M_initialize_exchange | M_setup_logger | M_calculate_buy_amount
  | M_get_current_price | M_check_balance | M_place_order

definition SnipeBot_class_dict :: "(string \<times> member) list" where
  "SnipeBot_class_dict =
     [(''__init__'', M_init),
      (''_initialize_exchange'', M_initialize_exchange),
      (''_setup_logger'', M_setup_logger),
      (''calculate_buy_amount'', M_calculate_buy_amount),
      (''get_current_price'', M_get_current_price),
      (''check_balance'', M_check_balance),
      (''place_order'', M_place_order)]"

definition module_functions :: "string list" where
  "module_functions = [''run'', ''place_order'']"

definition instance_attributes :: "string list" where
  "instance_attributes =
     [''logger'', ''exchange'', ''target_symbol'', ''quote_amount'', ''max_price'',
      ''order_type'', ''limit_price'']"

datatype attribute = InstanceAttribute string | BoundMethod member

text \<open>
  \<^verbatim>\<open>bot.name\<close> on an instance of \<^verbatim>\<open>SnipeBot\<close>: the instance's own attributes, then the
  class. The class defines no \<^verbatim>\<open>__getattr__\<close> and has no base class but \<^verbatim>\<open>object\<close>
  (whose own attributes, all with names in double underscores, are left out), so any other
  name raises \<^verbatim>\<open>AttributeError\<close>. Module-level functions take no part in the look-up.
\<close>

definition getattr_SnipeBot :: "string \<Rightarrow> pyexc + attribute" where
  "getattr_SnipeBot name =
     (if name \<in> set instance_attributes then Inr (InstanceAttribute name)
      else (case map_of SnipeBot_class_dict name of
              Some m \<Rightarrow> Inr (BoundMethod m)
            | None \<Rightarrow> Inl (Exception AttributeError)))"

text \<open>
  Calling an attribute with no arguments, \<^verbatim>\<open>bot.name()\<close>: the three methods that take
  only \<^verbatim>\<open>self\<close> run; a method that needs more arguments and an attribute that is not
  callable raise \<^verbatim>\<open>TypeError\<close>.
\<close>

fun call_attribute :: "exchange \<Rightarrow> bot \<Rightarrow> attribute \<Rightarrow> unit prog" where
  "call_attribute ex b (BoundMethod M_get_current_price) =
     bind (get_current_price ex b) (\<lambda>r. return ())"
| "call_attribute ex b (BoundMethod M_check_balance) =
     bind (check_balance ex b) (\<lambda>r. return ())"
| "call_attribute ex b (BoundMethod M_place_order) =
     bind (SnipeBot_place_order ex b) (\<lambda>r. return ())"
| "call_attribute ex b (BoundMethod M_setup_logger) =
     bind (call_exchange ex SetupLogging) (\<lambda>r. return ())"
| "call_attribute ex b a = lift (Inl (Exception TypeError))"

text \<open>
  \<^verbatim>\<open>SnipeBot._initialize_exchange\<close> (lines 30 to 57): the handler logs and raises the
  exception again.
\<close>

definition initialize_exchange :: "exchange \<Rightarrow> unit prog" where
  "initialize_exchange ex =
     try_except
       (bind (call_exchange ex NewClient) (\<lambda>exchange.
        bind (call_exchange ex SetSandboxMode) (\<lambda>u.
        seq (logger INFO)
        (bind (call_exchange ex LoadMarkets) (\<lambda>loaded.
         seq (logger INFO)
         (return ()))))))
       (\<lambda>k. seq (logger ERROR) (lift (Inl (Exception k))))"

text \<open>
  \<^verbatim>\<open>SnipeBot.__init__\<close> (lines 9 to 28): the logger, the exchange, then the trading
  parameters.
\<close>

definition SnipeBot_init :: "exchange \<Rightarrow> bot prog" where
  "SnipeBot_init ex =
     bind (call_exchange ex SetupLogging) (\<lambda>logger.
     seq (initialize_exchange ex)
     (return \<lparr>target_symbol = PNone, quote_amount = PNone, max_price = PNone,
        order_type = PStr ''market'', limit_price = PNone\<rparr>))"

text \<open>
  \<^verbatim>\<open>main.py\<close> (lines 15 to 40): construct the bot, set the market-order parameters, look
  \<^verbatim>\<open>run\<close> up on the bot and call it; any \<^verbatim>\<open>Exception\<close> is printed.
\<close>

definition main :: "exchange \<Rightarrow> unit prog" where
  "main ex =
     try_except
       (bind (SnipeBot_init ex) (\<lambda>new_bot.
        let the_bot = new_bot\<lparr>target_symbol := PStr ''ETH/USDT'', quote_amount := PNum 100,
                        order_type := PStr ''market'', max_price := PNum 3000\<rparr>
        in bind (lift (getattr_SnipeBot ''run'')) (\<lambda>f.
           call_attribute ex the_bot f)))
       (\<lambda>k tr. (Inr (), tr @ [Print (Exception k)]))"


section \<open>Observing a trace\<close>

text \<open>
  The claims speak of calls that are or are not made. A program only appends to the trace,
  so a kind of event has not occurred during a run when the trace holds as many events of
  that kind after the run as before.
\<close>

fun is_order_call :: "event \<Rightarrow> bool" where
  "is_order_call (Call (CreateMarketBuyOrder s a p)) = True"
| "is_order_call (Call (CreateLimitBuyOrder s a l p)) = True"
| "is_order_call e = False"

fun is_balance_fetch :: "event \<Rightarrow> bool" where
  "is_balance_fetch (Call FetchBalance) = True"
| "is_balance_fetch e = False"

fun is_price_poll :: "event \<Rightarrow> bool" where
  "is_price_poll (Call (FetchTicker s)) = True"
| "is_price_poll e = False"

definition count_events :: "(event \<Rightarrow> bool) \<Rightarrow> trace \<Rightarrow> nat" where
  "count_events P tr = length (filter P tr)"

definition order_calls :: "trace \<Rightarrow> nat" where
  "order_calls = count_events is_order_call"

definition balance_fetches :: "trace \<Rightarrow> nat" where
  "balance_fetches = count_events is_balance_fetch"

definition price_polls :: "trace \<Rightarrow> nat" where
  "price_polls = count_events is_price_poll"

text \<open>A program that adds exactly \<open>n\<close> events of a kind, whatever the trace before.\<close>

definition emits :: "(event \<Rightarrow> bool) \<Rightarrow> nat \<Rightarrow> 'a prog \<Rightarrow> bool" where
  "emits P n m \<longleftrightarrow> (\<forall>tr. count_events P (snd (m tr)) = count_events P tr + n)"

text \<open>\<^verbatim>\<open>run\<close> returns normally and has fetched no price.\<close>

definition returns_without_polling :: "exchange \<Rightarrow> bot \<Rightarrow> trace \<Rightarrow> bool" where
  "returns_without_polling ex b tr =
     (case run ex b tr of
        None \<Rightarrow> False
      | Some (Inl e, tr') \<Rightarrow> False
      | Some (Inr u, tr') \<Rightarrow> price_polls tr' = price_polls tr)"

text \<open>
  The loop unrolled: \<open>loop_state ex b s i\<close> is the retry count and the trace with which
  iteration \<open>i\<close> (counted from 0) starts when the loop is entered in state \<open>s\<close>, and
  \<open>None\<close> when the loop has been left before. \<^verbatim>\<open>run\<close> enters the loop with count 0.
\<close>

fun loop_state :: "exchange \<Rightarrow> bot \<Rightarrow> nat \<times> trace \<Rightarrow> nat \<Rightarrow> (nat \<times> trace) option" where
  "loop_state ex b s 0 = Some s"
| "loop_state ex b s (Suc i) =
     (case loop_state ex b s i of
        None \<Rightarrow> None
      | Some (rc, tr) \<Rightarrow>
          (case loop_iteration ex b rc tr of
             (Inr (Continue n), tr') \<Rightarrow> Some (n, tr')
           | (Inr (Break x), tr') \<Rightarrow> None
           | (Inl e, tr') \<Rightarrow> None))"



text \<open>
  How an iteration ends once it has reached its \<^verbatim>\<open>time.sleep(1)\<close> inside the
  \<^verbatim>\<open>try\<close> block with trace \<open>tr\<close>: it goes on with count \<open>n\<close>, unless a manual
  interruption arrives during the sleep and the handler for \<^verbatim>\<open>KeyboardInterrupt\<close> leaves
  the loop.
\<close>

definition after_sleep :: "exchange \<Rightarrow> nat \<Rightarrow> trace \<Rightarrow> flow result" where
  "after_sleep ex n tr =
     (if respond ex tr Sleep = Inl KeyboardInterrupt
      then (Inr (Break Interrupted), tr @ [Call Sleep, Log INFO, Log INFO])
      else (Inr (Continue n), tr @ [Call Sleep]))"

text \<open>What the loop returns when an iteration ends like this; \<open>None\<close>: the loop goes on.\<close>

fun leaves :: "flow result \<Rightarrow> loop_exit result option" where
  "leaves (Inr (Continue n), tr) = None"
| "leaves (Inr (Break x), tr) = Some (Inr x, tr)"
| "leaves (Inl e, tr) = Some (Inl e, tr)"


section \<open>Concrete bots and exchanges\<close>

text \<open>The parameters \<^verbatim>\<open>main.py\<close> sets: a market order of 100 USDT below 3000.\<close>

definition market_bot :: bot where
  "market_bot =
     \<lparr>target_symbol = PStr ''ETH/USDT'', quote_amount = PNum 100, max_price = PNum 3000,
      order_type = PStr ''market'', limit_price = PNone\<rparr>"

text \<open>The limit order \<^verbatim>\<open>main.py\<close> keeps in a comment, without its price ceiling.\<close>

definition limit_bot :: bot where
  "limit_bot =
     \<lparr>target_symbol = PStr ''ETH/USDT'', quote_amount = PNum 50, max_price = PNone,
      order_type = PStr ''limit'', limit_price = PNum 2100\<rparr>"

definition eth_market :: pyval where
  "eth_market =
     PDict [(''symbol'', PStr ''ETH/USDT''),
            (''limits'', PDict [(''amount'', PDict [(''min'', PNum (1 / 1000))]),
                               (''cost'', PDict [(''min'', PNum 10)])])]"

text \<open>
  An exchange that always answers: the last price is \<open>price\<close>, the free USDT balance is
  \<open>free\<close>, every order is accepted.
\<close>

definition steady_exchange :: "rat \<Rightarrow> rat \<Rightarrow> exchange" where
  "steady_exchange price free =
     \<lparr>respond = (\<lambda>tr c.
        case c of
          FetchTicker s \<Rightarrow> Inr (PDict [(''last'', PNum price)])
        | FetchBalance \<Rightarrow> Inr (PDict [(''USDT'', PDict [(''free'', PNum free)])])
        | Market s \<Rightarrow> Inr eth_market
        | CreateMarketBuyOrder s a p \<Rightarrow> Inr (PDict [(''id'', PStr ''1'')])
        | CreateLimitBuyOrder s a l p \<Rightarrow> Inr (PDict [(''id'', PStr ''1'')])
        | _ \<Rightarrow> Inr PNone),
      markets = (\<lambda>tr. Some [(''ETH/USDT'', eth_market)])\<rparr>"


text \<open>A manual interruption arrives during whatever call comes first.\<close>

definition interrupted_exchange :: exchange where
  "interrupted_exchange =
     \<lparr>respond = (\<lambda>tr c. Inl KeyboardInterrupt),
      markets = (\<lambda>tr. Some [(''ETH/USDT'', eth_market)])\<rparr>"

text \<open>An exchange that answers every query but rejects every order.\<close>

definition rejecting_exchange :: exchange where
  "rejecting_exchange =
     \<lparr>respond = (\<lambda>tr c.
        case c of
          CreateMarketBuyOrder s a p \<Rightarrow> Inl (Exception (LibraryError ''InvalidOrder''))
        | CreateLimitBuyOrder s a l p \<Rightarrow> Inl (Exception (LibraryError ''InvalidOrder''))
        | _ \<Rightarrow> respond (steady_exchange 2000 1000) tr c),
      markets = (\<lambda>tr. Some [(''ETH/USDT'', eth_market)])\<rparr>"



section \<open>Basic facts about programs\<close>

lemmas prog_defs =
  return_def lift_def bind_def seq_def try_except_def logger_def call_exchange_def

lemma handler_result: "seq (logger l) (return v) tr = (Inr v, tr @ [Log l])"
  by (simp add: prog_defs)

lemma handler_no_exception: "fst (seq (logger l) (return v) tr) \<noteq> Inl e"
  by (simp add: handler_result)

lemma try_except_cases:
  "try_except m h tr =
     (case m tr of
        (Inl (Exception k), tr') \<Rightarrow> h k tr'
      | (Inl KeyboardInterrupt, tr') \<Rightarrow> (Inl KeyboardInterrupt, tr')
      | (Inr v, tr') \<Rightarrow> (Inr v, tr'))"
  by (simp add: try_except_def)

lemma try_except_no_Exception:
  assumes "\<And>k' tr'. fst (h k' tr') \<noteq> Inl (Exception k)"
  shows "fst (try_except m h tr) \<noteq> Inl (Exception k)"
  using assms by (auto simp: try_except_def split: prod.splits sum.splits pyexc.splits)

lemma sleep_cases:
  "sleep ex tr =
     (if respond ex tr Sleep = Inl KeyboardInterrupt
      then (Inl KeyboardInterrupt, tr @ [Call Sleep])
      else (Inr (), tr @ [Call Sleep]))"
  by (simp add: sleep_def split: sum.splits pyexc.splits)


subsection \<open>Counting events\<close>

lemma emitsD: "emits P n m \<Longrightarrow> count_events P (snd (m tr)) = count_events P tr + n"
  by (simp add: emits_def)

lemma emits_return: "emits P 0 (return v)"
  by (simp add: emits_def return_def)

lemma emits_lift: "emits P 0 (lift r)"
  by (simp add: emits_def lift_def)

lemma emits_logger: "\<not> P (Log l) \<Longrightarrow> emits P 0 (logger l)"
  by (simp add: emits_def logger_def count_events_def)

lemma emits_logs: "\<not> P (Log l) \<Longrightarrow> emits P 0 (logs l n)"
  by (simp add: emits_def logs_def count_events_def)

lemma emits_call_0: "\<not> P (Call c) \<Longrightarrow> emits P 0 (call_exchange ex c)"
  by (simp add: emits_def call_exchange_def count_events_def)

lemma emits_call_1: "P (Call c) \<Longrightarrow> emits P (Suc 0) (call_exchange ex c)"
  by (simp add: emits_def call_exchange_def count_events_def)

lemma emits_sleep: "\<not> P (Call Sleep) \<Longrightarrow> emits P 0 (sleep ex)"
  by (simp add: emits_def sleep_def count_events_def split: sum.splits pyexc.splits)

lemma emits_bind:
  assumes m: "emits P n m" and f: "\<And>v. emits P 0 (f v)"
  shows "emits P n (bind m f)"
  unfolding emits_def
proof
  fix tr
  obtain r tr' where mt: "m tr = (r, tr')" by (cases "m tr")
  from emitsD [OF m, of tr] mt have c: "count_events P tr' = count_events P tr + n" by simp
  show "count_events P (snd (bind m f tr)) = count_events P tr + n"
  proof (cases r)
    case (Inl e)
    with mt c show ?thesis by (simp add: bind_def)
  next
    case (Inr v)
    with mt c emitsD [OF f, of v tr'] show ?thesis by (simp add: bind_def)
  qed
qed

lemma emits_seq: "emits P n m \<Longrightarrow> emits P 0 k \<Longrightarrow> emits P n (seq m k)"
  by (simp add: seq_def emits_bind)

lemma emits_try_except:
  assumes m: "emits P n m" and h: "\<And>k. emits P 0 (h k)"
  shows "emits P n (try_except m h)"
  unfolding emits_def
proof
  fix tr
  obtain r tr' where mt: "m tr = (r, tr')" by (cases "m tr")
  from emitsD [OF m, of tr] mt have c: "count_events P tr' = count_events P tr + n" by simp
  show "count_events P (snd (try_except m h tr)) = count_events P tr + n"
  proof (cases r)
    case (Inl e)
    with mt c emitsD [OF h, of _ tr'] show ?thesis
      by (cases e) (simp_all add: try_except_def)
  next
    case (Inr v)
    with mt c show ?thesis by (simp add: try_except_def)
  qed
qed

lemma emits_if:
  "(c \<Longrightarrow> emits P n m) \<Longrightarrow> (\<not> c \<Longrightarrow> emits P n k) \<Longrightarrow> emits P n (if c then m else k)"
  by simp

lemmas emits_intros =
  emits_bind emits_seq emits_try_except emits_if emits_call_0 emits_sleep emits_logs
  emits_logger emits_return emits_lift


section \<open>The four methods\<close>

text \<open>Which calls the four methods make.\<close>

lemma get_current_price_no_balance: "emits is_balance_fetch 0 (get_current_price ex b)"
  unfolding get_current_price_def get_current_price_try_def
  by (intro emits_intros) simp_all

lemma get_current_price_no_order: "emits is_order_call 0 (get_current_price ex b)"
  unfolding get_current_price_def get_current_price_try_def
  by (intro emits_intros) simp_all

lemma calculate_buy_amount_no_balance:
  "emits is_balance_fetch 0 (calculate_buy_amount ex b p)"
  unfolding calculate_buy_amount_def calculate_buy_amount_try_def
  by (intro emits_intros) simp_all

lemma check_balance_one_balance: "emits is_balance_fetch (Suc 0) (check_balance ex b)"
  unfolding check_balance_def check_balance_try_def
  by (intro emits_try_except emits_bind emits_seq emits_call_1 emits_logger emits_return
      emits_lift) simp_all

lemma check_balance_no_order: "emits is_order_call 0 (check_balance ex b)"
  unfolding check_balance_def check_balance_try_def
  by (intro emits_intros) simp_all

text \<open>
  Every call of \<^verbatim>\<open>place_order\<close> fetches the balance exactly once, and nothing else in
  the loop fetches it: balance fetches count the order-placement attempts.
\<close>

lemma place_order_one_balance: "emits is_balance_fetch (Suc 0) (SnipeBot_place_order ex b)"
  unfolding SnipeBot_place_order_def SnipeBot_place_order_try_def
  by (intro emits_try_except emits_bind [OF check_balance_one_balance] emits_bind emits_seq
      emits_if emits_call_0 emits_logger emits_return emits_lift
      get_current_price_no_balance calculate_buy_amount_no_balance) simp_all


lemma place_order_no_Exception: "fst (SnipeBot_place_order ex b tr) \<noteq> Inl (Exception k)"
  unfolding SnipeBot_place_order_def
  by (intro try_except_no_Exception handler_no_exception)

lemma place_order_when_insufficient:
  assumes "fst (check_balance ex b tr) = Inr False"
  shows "SnipeBot_place_order ex b tr = (Inr PNone, snd (check_balance ex b tr) @ [Log ERROR])"
proof -
  obtain tr1 where cb: "check_balance ex b tr = (Inr False, tr1)"
    using assms by (cases "check_balance ex b tr") auto
  have "SnipeBot_place_order_try ex b tr = (Inr PNone, tr1 @ [Log ERROR])"
    unfolding SnipeBot_place_order_try_def bind_def [of "check_balance ex b"]
    by (simp add: cb handler_result)
  then show ?thesis by (simp add: SnipeBot_place_order_def try_except_def cb)
qed

lemma balance_below_budget:
  assumes "respond ex tr FetchBalance = Inr balance"
    and "py_split_slash_1 (target_symbol b) = Inr quote_currency"
    and "py_getitem balance quote_currency = Inr entry"
    and "py_getitem entry ''free'' = Inr (PNum available)"
    and "quote_amount b = PNum q" and "available < q"
  shows "check_balance ex b tr = (Inr False, tr @ [Call FetchBalance, Log INFO])"
  using assms by (simp add: check_balance_def check_balance_try_def prog_defs py_ge_def)





lemma format_4f_twentieth: "format_4f (1 / 20) = 1 / 20"
  by code_simp

lemma calculate_buy_amount_result:
  assumes "quote_amount b = PNum q" and "p \<noteq> 0"
    and "respond ex tr (Market (target_symbol b)) = Inr market"
    and "limits_min market ''amount'' (PNum (1 / 100)) = Inr (PNum m)"
  shows "calculate_buy_amount ex b (PNum p) tr =
     (Inr (PNum (format_4f (max (q / p) m))), tr @ [Call (Market (target_symbol b)), Log INFO])"
  using assms
  by (simp add: calculate_buy_amount_def calculate_buy_amount_try_def prog_defs py_max_def
      py_gt_def max_def)



section \<open>One iteration of the loop\<close>

lemma loop_iteration_handlers:
  "loop_iteration ex b rc tr =
     (case loop_try ex b rc tr of
        (Inl KeyboardInterrupt, tr') \<Rightarrow> (Inr (Break Interrupted), tr' @ [Log INFO, Log INFO])
      | (Inl (Exception k), tr') \<Rightarrow>
          (if respond ex (tr' @ [Log ERROR]) Sleep = Inl KeyboardInterrupt
           then (Inl KeyboardInterrupt, tr' @ [Log ERROR, Call Sleep])
           else (Inr (Continue rc), tr' @ [Log ERROR, Call Sleep]))
      | (Inr f, tr') \<Rightarrow> (Inr f, tr'))"
  by (simp add: loop_iteration_def prog_defs sleep_cases
      split: prod.splits sum.splits pyexc.splits)



lemma iteration_above_limit:
  assumes "get_current_price ex b tr = (Inr price, tr1)" and "price \<noteq> PNone"
    and "py_le price (max_price b) = Inr False"
  shows "loop_iteration ex b rc tr = after_sleep ex 0 (tr1 @ [Log INFO, Log INFO])"
  using assms
  by (simp add: loop_iteration_handlers loop_try_def prog_defs sleep_cases after_sleep_def
      reset_and_wait_def)


lemma iteration_within_limit:
  assumes "get_current_price ex b tr = (Inr price, tr1)" and "price \<noteq> PNone"
    and "py_le price (max_price b) = Inr True"
    and "SnipeBot_place_order ex b (tr1 @ [Log INFO]) = (r, tr2)"
  shows "loop_iteration ex b rc tr =
     (case r of
        Inl e \<Rightarrow> (Inr (Break Interrupted), tr2 @ [Log INFO, Log INFO])
      | Inr order \<Rightarrow>
          if truthy order then (Inr (Break OrderPlaced), tr2 @ [Log INFO, Log INFO])
          else after_sleep ex 0 (tr2 @ [Log ERROR]))"
proof (cases r)
  case (Inl e)
  with assms(4) place_order_no_Exception [of ex b "tr1 @ [Log INFO]"]
  have "e = KeyboardInterrupt"
    by (cases e) auto
  with Inl assms show ?thesis
    by (simp add: loop_iteration_handlers loop_try_def prog_defs)
next
  case (Inr order)
  with assms show ?thesis
    by (simp add: loop_iteration_handlers loop_try_def prog_defs sleep_cases after_sleep_def
        reset_and_wait_def)
qed











section \<open>The loop unrolled\<close>


lemma loop_state_shift:
  assumes "loop_iteration ex b rc tr = (Inr (Continue n), t)"
  shows "loop_state ex b (rc, tr) (Suc i) = loop_state ex b (n, t) i"
  using assms by (induction i) simp_all



lemma run_loop_returns_only_if:
  assumes ret: "run_loop ex b rc tr = Some res"
  shows "\<exists>i rc' tr'. loop_state ex b (rc, tr) i = Some (rc', tr') \<and>
           leaves (loop_iteration ex b rc' tr') = Some res"
proof (rule run_loop.raw_induct [where P = "\<lambda>ex b rc tr res.
    \<exists>i rc' tr'. loop_state ex b (rc, tr) i = Some (rc', tr') \<and>
           leaves (loop_iteration ex b rc' tr') = Some res", OF _ ret])
  fix f ex b rc tr res
  assume IH: "\<And>ex b rc tr res. f ex b rc tr = Some res \<Longrightarrow>
      \<exists>i rc' tr'. loop_state ex b (rc, tr) i = Some (rc', tr') \<and>
           leaves (loop_iteration ex b rc' tr') = Some res"
    and eq: "(case loop_iteration ex b rc tr of
        (Inr (Continue n), tr') \<Rightarrow> f ex b n tr'
      | (Inr (Break x), tr') \<Rightarrow> Some (Inr x, tr')
      | (Inl e, tr') \<Rightarrow> Some (Inl e, tr')) = Some res"
  obtain r t where it: "loop_iteration ex b rc tr = (r, t)"
    by (cases "loop_iteration ex b rc tr")
  show "\<exists>i rc' tr'. loop_state ex b (rc, tr) i = Some (rc', tr') \<and>
           leaves (loop_iteration ex b rc' tr') = Some res"
  proof (cases "leaves (r, t)")
    case None
    then obtain n where r: "r = Inr (Continue n)"
      by (cases r; cases "projr r") auto
    with eq it have "f ex b n t = Some res" by simp
    from IH [OF this] obtain i rc' tr' where
      "loop_state ex b (n, t) i = Some (rc', tr')"
      "leaves (loop_iteration ex b rc' tr') = Some res" by blast
    with loop_state_shift [of ex b rc tr n t i] it r
    have "loop_state ex b (rc, tr) (Suc i) = Some (rc', tr') \<and>
           leaves (loop_iteration ex b rc' tr') = Some res" by simp
    then show ?thesis by blast
  next
    case (Some res')
    with eq it have "res' = res"
      by (cases r; cases "projr r") auto
    with Some it have "loop_state ex b (rc, tr) 0 = Some (rc, tr) \<and>
           leaves (loop_iteration ex b rc tr) = Some res" by simp
    then show ?thesis by blast
  qed
qed

lemma run_loop_continue:
  "loop_iteration ex b rc tr = (Inr (Continue n), tr') \<Longrightarrow>
   run_loop ex b rc tr = run_loop ex b n tr'"
  by (subst run_loop.simps) simp

lemma never_leaving_loop:
  assumes "\<forall>rc tr. \<exists>n. fst (loop_iteration ex b rc tr) = Inr (Continue n)"
  shows "run_loop ex b rc tr = None"
proof (rule ccontr)
  assume "run_loop ex b rc tr \<noteq> None"
  then obtain res where "run_loop ex b rc tr = Some res" by auto
  from run_loop_returns_only_if [OF this] obtain rc' tr' where
    l: "leaves (loop_iteration ex b rc' tr') = Some res" by blast
  from assms obtain n where "fst (loop_iteration ex b rc' tr') = Inr (Continue n)" by blast
  then have "leaves (loop_iteration ex b rc' tr') = None"
    by (cases "loop_iteration ex b rc' tr'") simp
  with l show False by simp
qed




subsection \<open>The retry count\<close>











section \<open>The validation of run\<close>

lemma run_check_params_no_poll: "emits is_price_poll 0 (run_check_params b)"
  unfolding run_check_params_def
  by (intro emits_intros) simp_all

lemma run_steps_1_2_no_poll: "emits is_price_poll 0 (run_steps_1_2 ex b)"
  unfolding run_steps_1_2_def
  by (intro emits_intros run_check_params_no_poll) simp_all

lemma run_check_market_no_poll: "emits is_price_poll 0 (run_check_market ex b)"
proof -
  have "count_events is_price_poll (snd (run_check_market ex b tr)) =
      count_events is_price_poll tr" for tr
  proof (cases "markets ex tr")
    case None
    then show ?thesis by (simp add: run_check_market_def)
  next
    case (Some ms)
    have "emits is_price_poll 0
       (bind (lift (py_in_markets (target_symbol b) ms)) (\<lambda>known.
           if \<not> known then seq (logger ERROR) (return EarlyReturn)
           else
             bind (call_exchange ex (Market (target_symbol b))) (\<lambda>market.
             bind (lift (limits_min market ''cost'' (PNum 0))) (\<lambda>min_cost.
             bind (lift (limits_min market ''amount'' (PNum (1 / 10000)))) (\<lambda>min_amount.
             bind (if truthy min_cost then lift (py_lt (quote_amount b) min_cost)
                   else return False) (\<lambda>below.
             if below then seq (logger ERROR) (return EarlyReturn)
             else
               seq (logs INFO (if order_type b = PStr ''limit'' then 9 else 8))
               (return (Next ()))))))))"
      by (intro emits_intros) simp_all
    from emitsD [OF this, of tr] Some show ?thesis
      by (simp add: run_check_market_def)
  qed
  then show ?thesis by (simp add: emits_def)
qed

text \<open>The only interruption the validation can meet is one during \<^verbatim>\<open>load_markets\<close>.\<close>

lemma run_check_params_result:
  "run_check_params b tr = (r, tr') \<Longrightarrow> r \<noteq> Inl KeyboardInterrupt"
  by (cases "limit_price b")
     (auto simp: run_check_params_def prog_defs split: if_splits)

lemma run_steps_1_2_result:
  assumes "respond ex (tr @ [Log INFO]) LoadMarkets \<noteq> Inl KeyboardInterrupt"
    and "run_steps_1_2 ex b tr = (r, tr')"
  shows "r \<noteq> Inl KeyboardInterrupt" and "price_polls tr' = price_polls tr"
proof -
  from emitsD [OF run_steps_1_2_no_poll, of ex b tr] assms(2)
  show "price_polls tr' = price_polls tr" by (simp add: price_polls_def)
  show "r \<noteq> Inl KeyboardInterrupt"
  proof (cases "respond ex (tr @ [Log INFO]) LoadMarkets")
    case (Inl e)
    with assms show ?thesis
      by (cases e) (auto simp: run_steps_1_2_def prog_defs)
  next
    case (Inr v)
    with assms(2) have "run_check_params b (tr @ [Log INFO, Call LoadMarkets, Log INFO]) = (r, tr')"
      by (simp add: run_steps_1_2_def prog_defs)
    then show ?thesis by (rule run_check_params_result)
  qed
qed

lemma run_returns_early:
  assumes "respond ex (tr @ [Log INFO]) LoadMarkets \<noteq> Inl KeyboardInterrupt"
    and "\<And>b' tr'. run_steps_1_2 ex b tr = (Inr (Next b'), tr') \<Longrightarrow>
           \<exists>tr''. run_from_step_3 ex b' tr' = Some (Inr (), tr'') \<and>
             price_polls tr'' = price_polls tr'"
  shows "returns_without_polling ex b tr"
proof -
  obtain r tr1 where s: "run_steps_1_2 ex b tr = (r, tr1)"
    by (cases "run_steps_1_2 ex b tr")
  note f = run_steps_1_2_result [OF assms(1) s]
  show ?thesis
  proof (cases r)
    case (Inl e)
    with f obtain k where "e = Exception k" by (cases e) auto
    with Inl s f show ?thesis
      by (simp add: returns_without_polling_def run_def run_except_def price_polls_def
          count_events_def)
  next
    case (Inr c)
    show ?thesis
    proof (cases c)
      case EarlyReturn
      with Inr s f show ?thesis
        by (simp add: returns_without_polling_def run_def)
    next
      case (Next b')
      with Inr s assms(2) [of b' tr1] f show ?thesis
        by (auto simp: returns_without_polling_def run_def)
    qed
  qed
qed

lemma run_from_step_3_returns:
  assumes "run_check_market ex b tr = (r, tr')"
    and "r = Inr EarlyReturn \<or> (\<exists>k. r = Inl (Exception k))"
  shows "\<exists>tr''. run_from_step_3 ex b tr = Some (Inr (), tr'') \<and>
             price_polls tr'' = price_polls tr"
proof -
  from emitsD [OF run_check_market_no_poll, of ex b tr] assms(1)
  have "price_polls tr' = price_polls tr" by (simp add: price_polls_def)
  with assms show ?thesis
    by (auto simp: run_from_step_3_def run_except_def price_polls_def count_events_def)
qed

lemma run_check_params_fields:
  assumes "run_check_params b tr = (Inr (Next b'), tr')"
  shows "target_symbol b' = target_symbol b" and "quote_amount b' = quote_amount b"
  using assms
  by (auto simp: run_check_params_def prog_defs split: if_splits sum.splits)

lemma run_steps_1_2_fields:
  assumes "run_steps_1_2 ex b tr = (Inr (Next b'), tr')"
  shows "target_symbol b' = target_symbol b" and "quote_amount b' = quote_amount b"
proof -
  from assms obtain t where "run_check_params b t = (Inr (Next b'), tr')"
    by (auto simp: run_steps_1_2_def prog_defs split: sum.splits)
  then show "target_symbol b' = target_symbol b" and "quote_amount b' = quote_amount b"
    by (rule run_check_params_fields)+
qed

lemma params_rejected:
  assumes "\<not> truthy (target_symbol b) \<or> \<not> truthy (quote_amount b) \<or>
      (order_type b = PStr ''limit'' \<and> \<not> truthy (limit_price b)) \<or>
      (order_type b \<noteq> PStr ''limit'' \<and> \<not> truthy (max_price b))"
  shows "run_check_params b tr = (Inr EarlyReturn, tr @ [Log ERROR])"
  using assms by (auto simp: run_check_params_def prog_defs)

lemma steps_1_2_rejected:
  assumes "\<not> truthy (target_symbol b) \<or> \<not> truthy (quote_amount b) \<or>
      (order_type b = PStr ''limit'' \<and> \<not> truthy (limit_price b)) \<or>
      (order_type b \<noteq> PStr ''limit'' \<and> \<not> truthy (max_price b))"
  shows "fst (run_steps_1_2 ex b tr) \<noteq> Inr (Next b')"
  using params_rejected [OF assms]
  by (simp add: run_steps_1_2_def prog_defs split: sum.splits)

lemma rejected_returns:
  assumes "respond ex (tr @ [Log INFO]) LoadMarkets \<noteq> Inl KeyboardInterrupt"
    and "\<not> truthy (target_symbol b) \<or> \<not> truthy (quote_amount b) \<or>
      (order_type b = PStr ''limit'' \<and> \<not> truthy (limit_price b)) \<or>
      (order_type b \<noteq> PStr ''limit'' \<and> \<not> truthy (max_price b))"
  shows "returns_without_polling ex b tr"
proof (rule run_returns_early [OF assms(1)])
  fix b' tr'
  assume "run_steps_1_2 ex b tr = (Inr (Next b'), tr')"
  with steps_1_2_rejected [OF assms(2), of ex tr b'] have False by simp
  then show "\<exists>tr''. run_from_step_3 ex b' tr' = Some (Inr (), tr'') \<and>
             price_polls tr'' = price_polls tr'" ..
qed

lemma default_ceiling:
  assumes "respond ex (tr @ [Log INFO]) LoadMarkets = Inr v"
    and "truthy (target_symbol b)" and "truthy (quote_amount b)"
    and "order_type b = PStr ''limit''" and "limit_price b = PNum l" and "l \<noteq> 0"
    and "\<not> truthy (max_price b)"
  shows "run_steps_1_2 ex b tr =
      (Inr (Next (b\<lparr>max_price := PNum (l * (101 / 100))\<rparr>)),
       tr @ [Log INFO, Call LoadMarkets, Log INFO, Log INFO])"
  using assms by (simp add: run_steps_1_2_def run_check_params_def prog_defs)

lemma unknown_symbol:
  assumes "markets ex tr = Some ms" and "target_symbol b = PStr s" and "map_of ms s = None"
  shows "run_check_market ex b tr = (Inr EarlyReturn, tr @ [Log ERROR])"
  using assms by (simp add: run_check_market_def prog_defs)

lemma below_minimum_cost:
  assumes "respond ex tr (Market (target_symbol b)) = Inr market"
    and "limits_min market ''cost'' (PNum 0) = Inr (PNum c)" and "c \<noteq> 0"
    and "quote_amount b = PNum q" and "q < c"
  shows "\<exists>r tr'. run_check_market ex b tr = (r, tr') \<and>
           (r = Inr EarlyReturn \<or> (\<exists>k. r = Inl (Exception k)))"
proof (cases "markets ex tr")
  case None
  then show ?thesis by (simp add: run_check_market_def)
next
  case (Some ms)
  show ?thesis
  proof (cases "py_in_markets (target_symbol b) ms")
    case (Inl e)
    then obtain k where "e = Exception k"
      by (cases "target_symbol b") auto
    with Inl Some show ?thesis by (simp add: run_check_market_def prog_defs)
  next
    case (Inr known)
    show ?thesis
    proof (cases "limits_min market ''amount'' (PNum (1 / 10000))")
      case (Inl e)
      then obtain k where "e = Exception k"
        by (auto simp: limits_min_def split: sum.splits elim: py_get.elims)
      with Inl Inr Some assms show ?thesis
        by (simp add: run_check_market_def prog_defs)
    next
      case (Inr min_amount)
      with \<open>py_in_markets (target_symbol b) ms = Inr known\<close> Some assms show ?thesis
        by (simp add: run_check_market_def prog_defs)
    qed
  qed
qed


section \<open>The constructor and the entry point\<close>

lemma initialize_exchange_no_poll: "emits is_price_poll 0 (initialize_exchange ex)"
  unfolding initialize_exchange_def
  by (intro emits_intros) simp_all

lemma SnipeBot_init_no_poll: "emits is_price_poll 0 (SnipeBot_init ex)"
  unfolding SnipeBot_init_def
  by (intro emits_intros initialize_exchange_no_poll) simp_all

lemma getattr_run: "getattr_SnipeBot ''run'' = Inl (Exception AttributeError)"
  by (simp add: getattr_SnipeBot_def instance_attributes_def SnipeBot_class_dict_def)

lemma main_unfolded:
  "main ex tr =
     (case SnipeBot_init ex tr of
        (Inl (Exception k), tr') \<Rightarrow> (Inr (), tr' @ [Print (Exception k)])
      | (Inl KeyboardInterrupt, tr') \<Rightarrow> (Inl KeyboardInterrupt, tr')
      | (Inr new_bot, tr') \<Rightarrow> (Inr (), tr' @ [Print (Exception AttributeError)]))"
  by (simp add: main_def try_except_def bind_def lift_def getattr_run Let_def
      split: prod.splits sum.splits pyexc.splits)


section \<open>The concrete bots and exchanges at work\<close>

lemma market_bot_fields:
  "target_symbol market_bot = PStr ''ETH/USDT''"
  "quote_amount market_bot = PNum 100"
  "max_price market_bot = PNum 3000"
  "order_type market_bot = PStr ''market''"
  "limit_price market_bot = PNone"
  by (simp_all add: market_bot_def)

lemma limit_bot_fields:
  "target_symbol limit_bot = PStr ''ETH/USDT''"
  "quote_amount limit_bot = PNum 50"
  "max_price limit_bot = PNone"
  "order_type limit_bot = PStr ''limit''"
  "limit_price limit_bot = PNum 2100"
  by (simp_all add: limit_bot_def)

lemma eth_min_cost: "limits_min eth_market ''cost'' (PNum 0) = Inr (PNum 10)"
  by (simp add: eth_market_def limits_min_def)

lemma eth_min_amount: "limits_min eth_market ''amount'' (PNum (1 / 10000)) = Inr (PNum (1 / 1000))"
  by (simp add: eth_market_def limits_min_def)

lemma steady_sleep [simp]: "respond (steady_exchange p f) tr Sleep = Inr PNone"
  by (simp add: steady_exchange_def)

lemma steady_load [simp]: "respond (steady_exchange p f) tr LoadMarkets = Inr PNone"
  by (simp add: steady_exchange_def)

lemma steady_markets [simp]:
  "markets (steady_exchange p f) tr = Some [(''ETH/USDT'', eth_market)]"
  by (simp add: steady_exchange_def)

lemma steady_market [simp]: "respond (steady_exchange p f) tr (Market s) = Inr eth_market"
  by (simp add: steady_exchange_def)

lemma steady_price:
  "get_current_price (steady_exchange p f) b tr =
     (Inr (PNum p), tr @ [Call (FetchTicker (target_symbol b))])"
  by (simp add: get_current_price_def get_current_price_try_def prog_defs steady_exchange_def)

lemma steady_check_balance:
  "check_balance (steady_exchange p f) market_bot tr =
     (Inr (100 \<le> f), tr @ [Call FetchBalance, Log INFO])"
  by (simp add: check_balance_def check_balance_try_def prog_defs py_ge_def
      steady_exchange_def market_bot_def)

lemma steady_amount:
  "calculate_buy_amount (steady_exchange p f) market_bot (PNum 2000) tr =
     (Inr (PNum (1 / 20)), tr @ [Call (Market (PStr ''ETH/USDT'')), Log INFO])"
proof -
  have q: "quote_amount market_bot = PNum 100" and "(2000 :: rat) \<noteq> 0"
    and m: "respond (steady_exchange p f) tr (Market (target_symbol market_bot)) =
      Inr eth_market"
    and l: "limits_min eth_market ''amount'' (PNum (1 / 100)) = Inr (PNum (1 / 1000))"
    by (simp_all add: market_bot_def steady_exchange_def eth_market_def limits_min_def)
  from calculate_buy_amount_result [OF this] show ?thesis
    by (simp add: market_bot_def format_4f_twentieth)
qed

lemma steady_place_order:
  "SnipeBot_place_order (steady_exchange 2000 1000) market_bot tr =
     (Inr (PDict [(''id'', PStr ''1'')]),
      tr @ [Call FetchBalance, Log INFO, Call (FetchTicker (PStr ''ETH/USDT'')),
            Call (Market (PStr ''ETH/USDT'')), Log INFO, Call (Market (PStr ''ETH/USDT'')),
            Log INFO, Log INFO,
            Call (CreateMarketBuyOrder (PStr ''ETH/USDT'') (PNum (1 / 20)) order_params),
            Log INFO, Log INFO])"
proof -
  have m: "respond (steady_exchange 2000 1000) t (Market s) = Inr eth_market" for t s
    by (simp add: steady_exchange_def)
  have c: "respond (steady_exchange 2000 1000) t (CreateMarketBuyOrder s a q) =
      Inr (PDict [(''id'', PStr ''1'')])" for t s a q
    by (simp add: steady_exchange_def)
  have l: "limits_min eth_market ''amount'' (PNum (1 / 10000)) = Inr (PNum (1 / 1000))"
    by (simp add: eth_market_def limits_min_def)
  have t: "target_symbol market_bot = PStr ''ETH/USDT''" "order_type market_bot = PStr ''market''"
    by (simp_all add: market_bot_def)
  show ?thesis
    unfolding SnipeBot_place_order_def SnipeBot_place_order_try_def
    by (simp add: prog_defs steady_check_balance steady_price steady_amount m c l t)
qed

lemma steady_order_iteration:
  "loop_iteration (steady_exchange 2000 1000) market_bot rc tr =
     (Inr (Break OrderPlaced),
      tr @ [Call (FetchTicker (PStr ''ETH/USDT'')), Log INFO,
       Call FetchBalance, Log INFO, Call (FetchTicker (PStr ''ETH/USDT'')),
       Call (Market (PStr ''ETH/USDT'')), Log INFO, Call (Market (PStr ''ETH/USDT'')),
       Log INFO, Log INFO,
       Call (CreateMarketBuyOrder (PStr ''ETH/USDT'') (PNum (1 / 20)) order_params),
       Log INFO, Log INFO, Log INFO, Log INFO])"
proof -
  have g: "get_current_price (steady_exchange 2000 1000) market_bot tr =
      (Inr (PNum 2000), tr @ [Call (FetchTicker (PStr ''ETH/USDT''))])"
    by (simp add: steady_price market_bot_fields)
  have le: "py_le (PNum 2000) (max_price market_bot) = Inr True"
    by (simp add: market_bot_fields)
  from iteration_within_limit [OF g _ le steady_place_order, of rc]
  show ?thesis by simp
qed

lemma poor_place_order:
  "SnipeBot_place_order (steady_exchange 2000 50) market_bot tr =
     (Inr PNone, tr @ [Call FetchBalance, Log INFO, Log ERROR])"
  using place_order_when_insufficient [of "steady_exchange 2000 50" market_bot tr]
  by (simp add: steady_check_balance)

lemma poor_iteration:
  "loop_iteration (steady_exchange 2000 50) market_bot rc tr =
     (Inr (Continue 0),
      tr @ [Call (FetchTicker (PStr ''ETH/USDT'')), Log INFO, Call FetchBalance, Log INFO,
            Log ERROR, Log ERROR, Call Sleep])"
proof -
  have g: "get_current_price (steady_exchange 2000 50) market_bot tr =
      (Inr (PNum 2000), tr @ [Call (FetchTicker (PStr ''ETH/USDT''))])"
    by (simp add: steady_price market_bot_fields)
  have le: "py_le (PNum 2000) (max_price market_bot) = Inr True"
    by (simp add: market_bot_fields)
  from iteration_within_limit [OF g _ le poor_place_order, of rc]
  show ?thesis by (simp add: after_sleep_def)
qed






lemma steady_validation:
  "run_steps_1_2 (steady_exchange 2000 1000) market_bot [] =
     (Inr (Next market_bot), [Log INFO, Call LoadMarkets, Log INFO])"
  by (simp add: run_steps_1_2_def run_check_params_def prog_defs market_bot_fields)

lemma steady_market_check:
  "run_check_market (steady_exchange 2000 1000) market_bot tr =
     (Inr (Next ()), tr @ Call (Market (PStr ''ETH/USDT'')) # replicate 8 (Log INFO))"
  by (simp add: run_check_market_def prog_defs market_bot_fields eth_min_cost eth_min_amount
      logs_def)

text \<open>
  With the parameters of \<^verbatim>\<open>main.py\<close>, a price of 2000 and a balance of 1000, \<^verbatim>\<open>run\<close>
  (were it called) validates, polls once, places a market order for 0.05 and returns.
\<close>

lemma run_places_order:
  "run (steady_exchange 2000 1000) market_bot [] =
     Some (Inr (),
       [Log INFO, Call LoadMarkets, Log INFO, Call (Market (PStr ''ETH/USDT''))] @
       replicate 8 (Log INFO) @
       [Call (FetchTicker (PStr ''ETH/USDT'')), Log INFO,
        Call FetchBalance, Log INFO, Call (FetchTicker (PStr ''ETH/USDT'')),
        Call (Market (PStr ''ETH/USDT'')), Log INFO, Call (Market (PStr ''ETH/USDT'')),
        Log INFO, Log INFO,
        Call (CreateMarketBuyOrder (PStr ''ETH/USDT'') (PNum (1 / 20)) order_params),
        Log INFO, Log INFO, Log INFO, Log INFO])"
  by (simp add: run_def steady_validation run_from_step_3_def steady_market_check
      run_loop.simps [of _ _ 0] steady_order_iteration)


section \<open>The claims\<close>

text \<open>
  C1. \<^verbatim>\<open>run\<close> and the second \<^verbatim>\<open>place_order\<close> are functions of the module, and the
  class \<^verbatim>\<open>SnipeBot\<close> has no attribute \<^verbatim>\<open>run\<close>: on every instance the look-up
  \<^verbatim>\<open>bot.run\<close> raises \<^verbatim>\<open>AttributeError\<close>. In \<^verbatim>\<open>main.py\<close> that exception (or an earlier
  one from the constructor) is caught by the handler for \<^verbatim>\<open>Exception\<close> and printed, and
  the program never fetches a price: the polling loop is not executed.
\<close>

theorem run_is_not_a_method:
  "''run'' \<in> set module_functions \<and> ''place_order'' \<in> set module_functions \<and>
   map_of SnipeBot_class_dict ''run'' = None \<and>
   getattr_SnipeBot ''run'' = Inl (Exception AttributeError) \<and>
   main ex tr =
     (case SnipeBot_init ex tr of
        (Inl (Exception k), tr') \<Rightarrow> (Inr (), tr' @ [Print (Exception k)])
      | (Inl KeyboardInterrupt, tr') \<Rightarrow> (Inl KeyboardInterrupt, tr')
      | (Inr new_bot, tr') \<Rightarrow> (Inr (), tr' @ [Print (Exception AttributeError)])) \<and>
   price_polls (snd (main ex tr)) = price_polls tr"
proof (intro conjI)
  show "''run'' \<in> set module_functions" and "''place_order'' \<in> set module_functions"
    by (simp_all add: module_functions_def)
  show "map_of SnipeBot_class_dict ''run'' = None"
    by (simp add: SnipeBot_class_dict_def)
  show "getattr_SnipeBot ''run'' = Inl (Exception AttributeError)"
    by (rule getattr_run)
  show "main ex tr =
     (case SnipeBot_init ex tr of
        (Inl (Exception k), tr') \<Rightarrow> (Inr (), tr' @ [Print (Exception k)])
      | (Inl KeyboardInterrupt, tr') \<Rightarrow> (Inl KeyboardInterrupt, tr')
      | (Inr new_bot, tr') \<Rightarrow> (Inr (), tr' @ [Print (Exception AttributeError)]))"
    by (rule main_unfolded)
  obtain r tr' where init: "SnipeBot_init ex tr = (r, tr')"
    by (cases "SnipeBot_init ex tr")
  with emitsD [OF SnipeBot_init_no_poll, of ex tr]
  have "count_events is_price_poll tr' = count_events is_price_poll tr"
    by simp
  then show "price_polls (snd (main ex tr)) = price_polls tr"
    by (simp add: main_unfolded init price_polls_def count_events_def
        split: sum.splits pyexc.splits)
qed

text \<open>
  C2. In an iteration whose fetch yields the price \<open>p\<close>, with price ceiling \<open>m\<close>:
  \<^verbatim>\<open>place_order\<close> is called (the balance is fetched once more, and the iteration's trace
  continues that of \<^verbatim>\<open>place_order\<close>) exactly when \<open>p \<le> m\<close>. When \<open>p\<close> exceeds \<open>m\<close>, no
  order-creation call is made and, after one sleep, the loop goes on with count 0 (a manual
  interruption during the sleep ends it).
\<close>

theorem order_attempt_iff_price_within_limit:
  assumes g: "get_current_price ex b tr = (Inr (PNum p), tr1)" and mp: "max_price b = PNum m"
  shows "balance_fetches (snd (loop_iteration ex b rc tr)) =
           balance_fetches tr + (if p \<le> m then 1 else 0) \<and>
         (p \<le> m \<longrightarrow>
            (\<exists>rest. snd (loop_iteration ex b rc tr) =
               snd (SnipeBot_place_order ex b (tr1 @ [Log INFO])) @ rest)) \<and>
         (m < p \<longrightarrow>
            order_calls (snd (loop_iteration ex b rc tr)) = order_calls tr \<and>
            loop_iteration ex b rc tr =
              (if respond ex (tr1 @ [Log INFO, Log INFO]) Sleep = Inl KeyboardInterrupt
               then (Inr (Break Interrupted),
                     tr1 @ [Log INFO, Log INFO, Call Sleep, Log INFO, Log INFO])
               else (Inr (Continue 0), tr1 @ [Log INFO, Log INFO, Call Sleep])))"
proof -
  from emitsD [OF get_current_price_no_balance, of ex b tr] g
  have b1: "count_events is_balance_fetch tr1 = count_events is_balance_fetch tr" by simp
  from emitsD [OF get_current_price_no_order, of ex b tr] g
  have o1: "count_events is_order_call tr1 = count_events is_order_call tr" by simp
  from mp have le: "py_le (PNum p) (max_price b) = Inr (p \<le> m)" by simp
  show ?thesis
  proof (cases "p \<le> m")
    case True
    obtain r tr2 where po: "SnipeBot_place_order ex b (tr1 @ [Log INFO]) = (r, tr2)"
      by (cases "SnipeBot_place_order ex b (tr1 @ [Log INFO])")
    from emitsD [OF place_order_one_balance, of ex b "tr1 @ [Log INFO]"] po b1
    have b2: "count_events is_balance_fetch tr2 = count_events is_balance_fetch tr + 1"
      by (simp add: count_events_def)
    from True le have le': "py_le (PNum p) (max_price b) = Inr True" by simp
    note it = iteration_within_limit [OF g _ le' po, of rc]
    from it b2 have "balance_fetches (snd (loop_iteration ex b rc tr)) = balance_fetches tr + 1"
      by (auto simp: balance_fetches_def after_sleep_def count_events_def split: sum.splits)
    moreover from it po
    have "\<exists>rest. snd (loop_iteration ex b rc tr) =
        snd (SnipeBot_place_order ex b (tr1 @ [Log INFO])) @ rest"
      by (auto simp: after_sleep_def split: sum.splits)
    ultimately show ?thesis using True by simp
  next
    case False
    with le have le': "py_le (PNum p) (max_price b) = Inr False" by simp
    note it = iteration_above_limit [OF g _ le', of rc]
    from it b1 have "balance_fetches (snd (loop_iteration ex b rc tr)) = balance_fetches tr"
      by (simp add: balance_fetches_def after_sleep_def count_events_def)
    moreover from it o1
    have "order_calls (snd (loop_iteration ex b rc tr)) = order_calls tr"
      by (simp add: order_calls_def after_sleep_def count_events_def)
    moreover from it have "loop_iteration ex b rc tr =
        (if respond ex (tr1 @ [Log INFO, Log INFO]) Sleep = Inl KeyboardInterrupt
         then (Inr (Break Interrupted),
               tr1 @ [Log INFO, Log INFO, Call Sleep, Log INFO, Log INFO])
         else (Inr (Continue 0), tr1 @ [Log INFO, Log INFO, Call Sleep]))"
      by (simp add: after_sleep_def)
    ultimately show ?thesis using False by simp
  qed
qed

theorem order_attempt_iff_price_within_limit_witness:
  "balance_fetches (snd (loop_iteration (steady_exchange 2000 1000) market_bot 0 [])) = 1 \<and>
   balance_fetches (snd (loop_iteration (steady_exchange 3500 1000) market_bot 0 [])) = 0 \<and>
   order_calls (snd (loop_iteration (steady_exchange 3500 1000) market_bot 0 [])) = 0 \<and>
   loop_iteration (steady_exchange 3500 1000) market_bot 0 [] =
     (Inr (Continue 0), [Call (FetchTicker (PStr ''ETH/USDT'')), Log INFO, Log INFO, Call Sleep])"
proof -
  have m: "max_price market_bot = PNum 3000" by (simp add: market_bot_def)
  have g: "get_current_price (steady_exchange p 1000) market_bot [] =
      (Inr (PNum p), [Call (FetchTicker (PStr ''ETH/USDT''))])" for p
    by (simp add: steady_price market_bot_def)
  from order_attempt_iff_price_within_limit [OF g m, of 2000 0]
    order_attempt_iff_price_within_limit [OF g m, of 3500 0]
  show ?thesis
    by (simp add: balance_fetches_def order_calls_def count_events_def)
qed



text \<open>
  C4. When, in an iteration, the price is within the limit and \<^verbatim>\<open>place_order\<close> returns
  \<^verbatim>\<open>None\<close>, the iteration does not leave the loop: it logs the failure, sleeps and goes on
  with count 0, so the loop behaves from there as a loop freshly continued; only a manual
  interruption during that sleep ends it. A loop in which every iteration goes on never
  returns.
\<close>

theorem failed_order_keeps_polling:
  "(get_current_price ex b tr = (Inr price, tr1) \<and> price \<noteq> PNone \<and>
    py_le price (max_price b) = Inr True \<and>
    SnipeBot_place_order ex b (tr1 @ [Log INFO]) = (Inr PNone, tr2)
    \<longrightarrow> loop_iteration ex b rc tr =
          (if respond ex (tr2 @ [Log ERROR]) Sleep = Inl KeyboardInterrupt
           then (Inr (Break Interrupted), tr2 @ [Log ERROR, Call Sleep, Log INFO, Log INFO])
           else (Inr (Continue 0), tr2 @ [Log ERROR, Call Sleep]))
      \<and> (respond ex (tr2 @ [Log ERROR]) Sleep \<noteq> Inl KeyboardInterrupt
           \<longrightarrow> run_loop ex b rc tr = run_loop ex b 0 (tr2 @ [Log ERROR, Call Sleep]))) \<and>
   ((\<forall>rc tr. \<exists>n. fst (loop_iteration ex b rc tr) = Inr (Continue n))
    \<longrightarrow> run_loop ex b rc tr = None)"
proof (intro conjI impI)
  assume a: "get_current_price ex b tr = (Inr price, tr1) \<and> price \<noteq> PNone \<and>
    py_le price (max_price b) = Inr True \<and>
    SnipeBot_place_order ex b (tr1 @ [Log INFO]) = (Inr PNone, tr2)"
  then have g: "get_current_price ex b tr = (Inr price, tr1)" and n: "price \<noteq> PNone"
    and le: "py_le price (max_price b) = Inr True"
    and po: "SnipeBot_place_order ex b (tr1 @ [Log INFO]) = (Inr PNone, tr2)"
    by simp_all
  from iteration_within_limit [OF g n le po, of rc]
  show it: "loop_iteration ex b rc tr =
          (if respond ex (tr2 @ [Log ERROR]) Sleep = Inl KeyboardInterrupt
           then (Inr (Break Interrupted), tr2 @ [Log ERROR, Call Sleep, Log INFO, Log INFO])
           else (Inr (Continue 0), tr2 @ [Log ERROR, Call Sleep]))"
    by (simp add: after_sleep_def)
  assume "respond ex (tr2 @ [Log ERROR]) Sleep \<noteq> Inl KeyboardInterrupt"
  with it have "loop_iteration ex b rc tr = (Inr (Continue 0), tr2 @ [Log ERROR, Call Sleep])"
    by simp
  then show "run_loop ex b rc tr = run_loop ex b 0 (tr2 @ [Log ERROR, Call Sleep])"
    by (rule run_loop_continue)
next
  assume "\<forall>rc tr. \<exists>n. fst (loop_iteration ex b rc tr) = Inr (Continue n)"
  then show "run_loop ex b rc tr = None"
    by (rule never_leaving_loop)
qed

theorem failed_order_keeps_polling_witness:
  "loop_iteration (steady_exchange 2000 50) market_bot 0 [] =
     (Inr (Continue 0),
      [Call (FetchTicker (PStr ''ETH/USDT'')), Log INFO, Call FetchBalance, Log INFO,
       Log ERROR, Log ERROR, Call Sleep]) \<and>
   run_loop (steady_exchange 2000 50) market_bot 0 [] = None"
proof -
  note t = failed_order_keeps_polling [of "steady_exchange 2000 50" market_bot "[]"
      "PNum 2000" "[Call (FetchTicker (PStr ''ETH/USDT''))]"
      "[Call (FetchTicker (PStr ''ETH/USDT'')), Log INFO, Call FetchBalance, Log INFO, Log ERROR]"
      0]
  have pre: "get_current_price (steady_exchange 2000 50) market_bot [] =
      (Inr (PNum 2000), [Call (FetchTicker (PStr ''ETH/USDT''))]) \<and>
    PNum 2000 \<noteq> PNone \<and> py_le (PNum 2000) (max_price market_bot) = Inr True \<and>
    SnipeBot_place_order (steady_exchange 2000 50) market_bot
      ([Call (FetchTicker (PStr ''ETH/USDT''))] @ [Log INFO]) =
      (Inr PNone,
       [Call (FetchTicker (PStr ''ETH/USDT'')), Log INFO, Call FetchBalance, Log INFO,
        Log ERROR])"
    by (simp add: steady_price poor_place_order market_bot_fields)
  have all: "\<forall>rc tr. \<exists>n. fst (loop_iteration (steady_exchange 2000 50) market_bot rc tr) =
      Inr (Continue n)"
    by (simp add: poor_iteration)
  from t pre have "loop_iteration (steady_exchange 2000 50) market_bot 0 [] =
     (Inr (Continue 0),
      [Call (FetchTicker (PStr ''ETH/USDT'')), Log INFO, Call FetchBalance, Log INFO,
       Log ERROR, Log ERROR, Call Sleep])"
    by simp
  moreover from t all have "run_loop (steady_exchange 2000 50) market_bot 0 [] = None"
    by blast
  ultimately show ?thesis by blast
qed



text \<open>
  C6. When the free balance of the quote currency is below \<^verbatim>\<open>quote_amount\<close>,
  \<^verbatim>\<open>check_balance\<close> returns \<^verbatim>\<open>False\<close>; and whenever \<^verbatim>\<open>check_balance\<close> returns
  \<^verbatim>\<open>False\<close>, \<^verbatim>\<open>place_order\<close> logs an error and returns \<^verbatim>\<open>None\<close> straight after the
  check, having issued no order-creation call.
\<close>

theorem insufficient_balance_no_order:
  "(respond ex tr FetchBalance = Inr balance \<and>
    py_split_slash_1 (target_symbol b) = Inr quote_currency \<and>
    py_getitem balance quote_currency = Inr entry \<and>
    py_getitem entry ''free'' = Inr (PNum available) \<and>
    quote_amount b = PNum q \<and> available < q
    \<longrightarrow> fst (check_balance ex b tr) = Inr False) \<and>
   (fst (check_balance ex b tr) = Inr False
    \<longrightarrow> SnipeBot_place_order ex b tr =
          (Inr PNone, snd (check_balance ex b tr) @ [Log ERROR])
      \<and> order_calls (snd (SnipeBot_place_order ex b tr)) = order_calls tr)"
proof (intro conjI impI)
  assume "respond ex tr FetchBalance = Inr balance \<and>
    py_split_slash_1 (target_symbol b) = Inr quote_currency \<and>
    py_getitem balance quote_currency = Inr entry \<and>
    py_getitem entry ''free'' = Inr (PNum available) \<and>
    quote_amount b = PNum q \<and> available < q"
  then show "fst (check_balance ex b tr) = Inr False"
    by (simp add: balance_below_budget)
next
  assume f: "fst (check_balance ex b tr) = Inr False"
  then show eq: "SnipeBot_place_order ex b tr =
      (Inr PNone, snd (check_balance ex b tr) @ [Log ERROR])"
    by (rule place_order_when_insufficient)
  from emitsD [OF check_balance_no_order, of ex b tr]
  show "order_calls (snd (SnipeBot_place_order ex b tr)) = order_calls tr"
    by (simp add: eq order_calls_def count_events_def)
qed

theorem insufficient_balance_no_order_witness:
  "fst (check_balance (steady_exchange 2000 50) market_bot []) = Inr False \<and>
   SnipeBot_place_order (steady_exchange 2000 50) market_bot [] =
     (Inr PNone, [Call FetchBalance, Log INFO, Log ERROR]) \<and>
   order_calls (snd (SnipeBot_place_order (steady_exchange 2000 50) market_bot [])) =
     order_calls []"
proof -
  note t = insufficient_balance_no_order [of "steady_exchange 2000 50" "[]"
      "PDict [(''USDT'', PDict [(''free'', PNum 50)])]" market_bot "''USDT''"
      "PDict [(''free'', PNum 50)]" 50 100]
  have pre: "respond (steady_exchange 2000 50) [] FetchBalance =
      Inr (PDict [(''USDT'', PDict [(''free'', PNum 50)])]) \<and>
    py_split_slash_1 (target_symbol market_bot) = Inr ''USDT'' \<and>
    py_getitem (PDict [(''USDT'', PDict [(''free'', PNum 50)])]) ''USDT'' =
      Inr (PDict [(''free'', PNum 50)]) \<and>
    py_getitem (PDict [(''free'', PNum 50)]) ''free'' = Inr (PNum 50) \<and>
    quote_amount market_bot = PNum 100 \<and> (50 :: rat) < 100"
    by (simp add: steady_exchange_def market_bot_def)
  from t pre have a: "fst (check_balance (steady_exchange 2000 50) market_bot []) = Inr False"
    by blast
  with t have "SnipeBot_place_order (steady_exchange 2000 50) market_bot [] =
      (Inr PNone, snd (check_balance (steady_exchange 2000 50) market_bot []) @ [Log ERROR]) \<and>
    order_calls (snd (SnipeBot_place_order (steady_exchange 2000 50) market_bot [])) =
      order_calls []"
    by blast
  with a show ?thesis
    by (simp add: steady_check_balance order_calls_def count_events_def)
qed

text \<open>
  C7. \<^verbatim>\<open>run\<close> validates before it polls. Provided no manual interruption arrives while
  the markets are reloaded, \<^verbatim>\<open>run\<close> returns without having fetched a price when
  \<^verbatim>\<open>target_symbol\<close> or \<^verbatim>\<open>quote_amount\<close> is unset (\<^verbatim>\<open>None\<close>, or otherwise falsy); when the
  order type is \<^verbatim>\<open>'limit'\<close> and \<^verbatim>\<open>limit_price\<close> is unset; when the order type is
  \<^verbatim>\<open>'market'\<close> and \<^verbatim>\<open>max_price\<close> is unset; when the symbol is not a key of the loaded
  markets; and when the market states a minimum cost (a non-zero number: 0 is the code's
  value for no minimum) and \<^verbatim>\<open>quote_amount\<close> is below it. For a limit order with
  \<^verbatim>\<open>limit_price\<close> \<open>l\<close> and \<^verbatim>\<open>max_price\<close> unset, \<^verbatim>\<open>run\<close> goes on to the market checks
  with \<^verbatim>\<open>max_price\<close> set to \<open>1.01 * l\<close>.
\<close>

theorem run_validates_parameters:
  assumes "respond ex (tr @ [Log INFO]) LoadMarkets \<noteq> Inl KeyboardInterrupt"
  shows
    "(\<not> truthy (target_symbol b) \<or> \<not> truthy (quote_amount b)
        \<longrightarrow> returns_without_polling ex b tr) \<and>
     (order_type b = PStr ''limit'' \<and> \<not> truthy (limit_price b)
        \<longrightarrow> returns_without_polling ex b tr) \<and>
     (order_type b = PStr ''market'' \<and> \<not> truthy (max_price b)
        \<longrightarrow> returns_without_polling ex b tr) \<and>
     (respond ex (tr @ [Log INFO]) LoadMarkets = Inr v \<and>
      truthy (target_symbol b) \<and> truthy (quote_amount b) \<and>
      order_type b = PStr ''limit'' \<and> limit_price b = PNum l \<and> l \<noteq> 0 \<and>
      \<not> truthy (max_price b)
        \<longrightarrow> run ex b tr =
              run_from_step_3 ex (b\<lparr>max_price := PNum (l * (101 / 100))\<rparr>)
                (tr @ [Log INFO, Call LoadMarkets, Log INFO, Log INFO])) \<and>
     ((\<forall>t. markets ex t = Some ms) \<and> target_symbol b = PStr s \<and> map_of ms s = None
        \<longrightarrow> returns_without_polling ex b tr) \<and>
     ((\<forall>t. respond ex t (Market (target_symbol b)) = Inr market) \<and>
      limits_min market ''cost'' (PNum 0) = Inr (PNum c) \<and> c \<noteq> 0 \<and>
      quote_amount b = PNum q \<and> q < c
        \<longrightarrow> returns_without_polling ex b tr)"
proof (intro conjI impI)
  assume "\<not> truthy (target_symbol b) \<or> \<not> truthy (quote_amount b)"
  then show "returns_without_polling ex b tr"
    by (intro rejected_returns [OF assms]) blast
next
  assume "order_type b = PStr ''limit'' \<and> \<not> truthy (limit_price b)"
  then show "returns_without_polling ex b tr"
    by (intro rejected_returns [OF assms]) blast
next
  assume "order_type b = PStr ''market'' \<and> \<not> truthy (max_price b)"
  then have "order_type b \<noteq> PStr ''limit'' \<and> \<not> truthy (max_price b)" by simp
  then show "returns_without_polling ex b tr"
    by (intro rejected_returns [OF assms]) blast
next
  assume "respond ex (tr @ [Log INFO]) LoadMarkets = Inr v \<and>
      truthy (target_symbol b) \<and> truthy (quote_amount b) \<and>
      order_type b = PStr ''limit'' \<and> limit_price b = PNum l \<and> l \<noteq> 0 \<and>
      \<not> truthy (max_price b)"
  then have "run_steps_1_2 ex b tr =
      (Inr (Next (b\<lparr>max_price := PNum (l * (101 / 100))\<rparr>)),
       tr @ [Log INFO, Call LoadMarkets, Log INFO, Log INFO])"
    by (intro default_ceiling) simp_all
  then show "run ex b tr =
      run_from_step_3 ex (b\<lparr>max_price := PNum (l * (101 / 100))\<rparr>)
        (tr @ [Log INFO, Call LoadMarkets, Log INFO, Log INFO])"
    by (simp add: run_def)
next
  assume a: "(\<forall>t. markets ex t = Some ms) \<and> target_symbol b = PStr s \<and> map_of ms s = None"
  show "returns_without_polling ex b tr"
  proof (rule run_returns_early [OF assms])
    fix b' tr'
    assume s: "run_steps_1_2 ex b tr = (Inr (Next b'), tr')"
    from a have m: "markets ex tr' = Some ms" and n: "map_of ms s = None" by simp_all
    from run_steps_1_2_fields(1) [OF s] a have t: "target_symbol b' = PStr s" by simp
    have "run_check_market ex b' tr' = (Inr EarlyReturn, tr' @ [Log ERROR])"
      by (rule unknown_symbol [OF m t n])
    then show "\<exists>tr''. run_from_step_3 ex b' tr' = Some (Inr (), tr'') \<and>
             price_polls tr'' = price_polls tr'"
      by (rule run_from_step_3_returns) simp
  qed
next
  assume a: "(\<forall>t. respond ex t (Market (target_symbol b)) = Inr market) \<and>
      limits_min market ''cost'' (PNum 0) = Inr (PNum c) \<and> c \<noteq> 0 \<and>
      quote_amount b = PNum q \<and> q < c"
  show "returns_without_polling ex b tr"
  proof (rule run_returns_early [OF assms])
    fix b' tr'
    assume s: "run_steps_1_2 ex b tr = (Inr (Next b'), tr')"
    from run_steps_1_2_fields [OF s] a
    have m: "respond ex tr' (Market (target_symbol b')) = Inr market"
      and l: "limits_min market ''cost'' (PNum 0) = Inr (PNum c)" and c: "c \<noteq> 0"
      and q: "quote_amount b' = PNum q" and lt: "q < c" by simp_all
    have "\<exists>r t. run_check_market ex b' tr' = (r, t) \<and>
           (r = Inr EarlyReturn \<or> (\<exists>k. r = Inl (Exception k)))"
      by (rule below_minimum_cost [OF m l c q lt])
    then obtain r t where "run_check_market ex b' tr' = (r, t)"
      and "r = Inr EarlyReturn \<or> (\<exists>k. r = Inl (Exception k))" by blast
    then show "\<exists>tr''. run_from_step_3 ex b' tr' = Some (Inr (), tr'') \<and>
             price_polls tr'' = price_polls tr'"
      by (rule run_from_step_3_returns)
  qed
qed

theorem run_validates_parameters_witness:
  "returns_without_polling (steady_exchange 2000 1000)
     (market_bot\<lparr>target_symbol := PNone\<rparr>) [] \<and>
   returns_without_polling (steady_exchange 2000 1000)
     (limit_bot\<lparr>limit_price := PNone\<rparr>) [] \<and>
   returns_without_polling (steady_exchange 2000 1000)
     (market_bot\<lparr>max_price := PNone\<rparr>) [] \<and>
   run (steady_exchange 2000 1000) limit_bot [] =
     run_from_step_3 (steady_exchange 2000 1000) (limit_bot\<lparr>max_price := PNum 2121\<rparr>)
       [Log INFO, Call LoadMarkets, Log INFO, Log INFO] \<and>
   returns_without_polling (steady_exchange 2000 1000)
     (market_bot\<lparr>target_symbol := PStr ''DOGE/USDT''\<rparr>) [] \<and>
   returns_without_polling (steady_exchange 2000 1000)
     (market_bot\<lparr>quote_amount := PNum 5\<rparr>) []"
proof -
  have l: "respond (steady_exchange 2000 1000) ([] @ [Log INFO]) LoadMarkets \<noteq>
      Inl KeyboardInterrupt"
    by simp
  from run_validates_parameters [OF l, of "market_bot\<lparr>target_symbol := PNone\<rparr>"]
  have a: "returns_without_polling (steady_exchange 2000 1000)
     (market_bot\<lparr>target_symbol := PNone\<rparr>) []"
    by simp
  from run_validates_parameters [OF l, of "limit_bot\<lparr>limit_price := PNone\<rparr>"]
  have b: "returns_without_polling (steady_exchange 2000 1000)
     (limit_bot\<lparr>limit_price := PNone\<rparr>) []"
    by (simp add: limit_bot_fields)
  from run_validates_parameters [OF l, of "market_bot\<lparr>max_price := PNone\<rparr>"]
  have c: "returns_without_polling (steady_exchange 2000 1000)
     (market_bot\<lparr>max_price := PNone\<rparr>) []"
    by (simp add: market_bot_fields)
  from run_validates_parameters [OF l, of limit_bot PNone 2100]
  have d: "run (steady_exchange 2000 1000) limit_bot [] =
     run_from_step_3 (steady_exchange 2000 1000) (limit_bot\<lparr>max_price := PNum 2121\<rparr>)
       [Log INFO, Call LoadMarkets, Log INFO, Log INFO]"
    by (simp add: limit_bot_fields)
  from run_validates_parameters [OF l,
      of "market_bot\<lparr>target_symbol := PStr ''DOGE/USDT''\<rparr>" _ _ "[(''ETH/USDT'', eth_market)]"
        "''DOGE/USDT''"]
  have e: "returns_without_polling (steady_exchange 2000 1000)
     (market_bot\<lparr>target_symbol := PStr ''DOGE/USDT''\<rparr>) []"
    by simp
  from run_validates_parameters [OF l,
      of "market_bot\<lparr>quote_amount := PNum 5\<rparr>" _ _ _ _ eth_market 10 5]
  have f: "returns_without_polling (steady_exchange 2000 1000)
     (market_bot\<lparr>quote_amount := PNum 5\<rparr>) []"
    by (simp add: eth_min_cost)
  from a b c d e f show ?thesis by blast
qed

text \<open>
  C8, as claimed: no exception raised inside \<^verbatim>\<open>get_current_price\<close> reaches its caller.
  It fails for a manual interruption that arrives while the ticker is fetched:
  \<^verbatim>\<open>KeyboardInterrupt\<close> is not an \<^verbatim>\<open>Exception\<close>, and the method passes it on.
\<close>

theorem keyboard_interrupt_propagates:
  "fst (get_current_price interrupted_exchange market_bot []) = Inl KeyboardInterrupt"
  by (simp add: get_current_price_def get_current_price_try_def prog_defs
      interrupted_exchange_def)

text \<open>
  C8, amended. Every exception that derives from \<^verbatim>\<open>Exception\<close> and is raised inside the
  \<^verbatim>\<open>try\<close> block of \<^verbatim>\<open>get_current_price\<close>, \<^verbatim>\<open>check_balance\<close>,
  \<^verbatim>\<open>calculate_buy_amount\<close> or \<^verbatim>\<open>place_order\<close> is caught there: the method logs an error
  and returns \<^verbatim>\<open>None\<close>, \<^verbatim>\<open>False\<close>, \<^verbatim>\<open>None\<close>, \<^verbatim>\<open>None\<close> respectively. For every input,
  none of the four passes such an exception to its caller. (A \<^verbatim>\<open>KeyboardInterrupt\<close> is
  passed on unchanged.)
\<close>

theorem exceptions_caught:
  "get_current_price ex b tr =
     (case get_current_price_try ex b tr of
        (Inl (Exception k), tr') \<Rightarrow> (Inr PNone, tr' @ [Log ERROR])
      | (Inl KeyboardInterrupt, tr') \<Rightarrow> (Inl KeyboardInterrupt, tr')
      | (Inr v, tr') \<Rightarrow> (Inr v, tr')) \<and>
   check_balance ex b tr =
     (case check_balance_try ex b tr of
        (Inl (Exception k), tr') \<Rightarrow> (Inr False, tr' @ [Log ERROR])
      | (Inl KeyboardInterrupt, tr') \<Rightarrow> (Inl KeyboardInterrupt, tr')
      | (Inr v, tr') \<Rightarrow> (Inr v, tr')) \<and>
   calculate_buy_amount ex b price tr =
     (case calculate_buy_amount_try ex b price tr of
        (Inl (Exception k), tr') \<Rightarrow> (Inr PNone, tr' @ [Log ERROR])
      | (Inl KeyboardInterrupt, tr') \<Rightarrow> (Inl KeyboardInterrupt, tr')
      | (Inr v, tr') \<Rightarrow> (Inr v, tr')) \<and>
   SnipeBot_place_order ex b tr =
     (case SnipeBot_place_order_try ex b tr of
        (Inl (Exception k), tr') \<Rightarrow> (Inr PNone, tr' @ [Log ERROR])
      | (Inl KeyboardInterrupt, tr') \<Rightarrow> (Inl KeyboardInterrupt, tr')
      | (Inr v, tr') \<Rightarrow> (Inr v, tr')) \<and>
   fst (get_current_price ex b tr) \<noteq> Inl (Exception e) \<and>
   fst (check_balance ex b tr) \<noteq> Inl (Exception e) \<and>
   fst (calculate_buy_amount ex b price tr) \<noteq> Inl (Exception e) \<and>
   fst (SnipeBot_place_order ex b tr) \<noteq> Inl (Exception e)"
  unfolding get_current_price_def check_balance_def calculate_buy_amount_def
    SnipeBot_place_order_def
  by (intro conjI try_except_no_Exception handler_no_exception)
     (simp_all add: try_except_cases handler_result
        split: prod.splits sum.splits pyexc.splits)



text \<open>
  C10. The method \<^verbatim>\<open>place_order\<close> of the class and the function \<^verbatim>\<open>place_order\<close> of the
  module behave alike: for every bot, every exchange (hence every sequence of answers) and
  every history they return the same result and leave the same trace, so they issue the
  same order-creation calls.
\<close>

theorem place_order_copies_equal:
  "module_place_order ex self tr = SnipeBot_place_order ex self tr"
  by (simp add: module_place_order_def SnipeBot_place_order_def
      module_place_order_try_def SnipeBot_place_order_try_def)

end
